theory Spec2Isabelle
  imports Complex_Main
begin

section \<open>Data model (core/models.py)\<close>

text \<open>
  The views of \<^verbatim>\<open>core/views.py\<close> are embedded as functions over an explicit database
  state. Each table is the list of its rows in primary-key order. A view takes the
  database, the authenticated \<^verbatim>\<open>request.user\<close> and the request's data, and returns its
  outcome together with the database as the request leaves it. The views use no
  transaction block, so every \<^verbatim>\<open>save()\<close> and \<^verbatim>\<open>create()\<close> is committed as it runs: a
  view that raises after a \<^verbatim>\<open>save()\<close> returns the exception and the database with that
  save in it.

  \<^verbatim>\<open>Decimal\<close> amounts are rationals: the views add, subtract, multiply and compare them,
  which \<^verbatim>\<open>Decimal\<close> does exactly at these sizes. Every amount column is a
  \<^verbatim>\<open>DecimalField\<close> of two decimal places. An amount that a view computed with a request's
  amount or with a rate (a top-up, the 60% of an installment, the 10% of a commission) is
  written through \<open>to_column\<close>, which rounds it to the column's places and refuses it
  beyond the column's digits. An amount that a view read from its column and writes back,
  or that it computed from stored amounts by whole multiples and differences (the total of
  a booking and the credit left after it), has the column's places already and is written
  as it is.

  A \<^verbatim>\<open>DateField\<close> is the day's ordinal, so \<^verbatim>\<open>(end - start).days\<close> is a difference of
  integers. A \<^verbatim>\<open>DateTimeField\<close> is a number of seconds, \<^verbatim>\<open>timezone.now()\<close> a parameter
  of the view, and \<^verbatim>\<open>uuid.uuid4()\<close> a parameter too. Response texts drop the source's
  emoji.
\<close>

type_synonym money = rat
type_synonym date = int
type_synonym datetime = int

definition timedelta_days :: "int \<Rightarrow> int" where
  "timedelta_days d = d * 86400"

datatype Role = CUSTOMER | AGENT | INVESTOR | ADMIN

record User =
  u_id :: nat
  email :: string
  role :: Role
  is_verified :: bool
  membership_tier :: "string option"
  membership_expires_at :: "datetime option"
  shortlet_credit :: money

record Property =
  p_id :: nat
  p_agent :: nat
  title :: string
  price :: money
  property_type :: string
  cost_price :: "money option"
  is_approved :: bool

record Booking =
  b_id :: nat
  b_user :: nat
  b_property :: nat
  start_date :: date
  end_date :: date
  b_total_price :: money
  is_cancelled :: bool
  is_paid :: bool
  b_tx_ref :: "string option"

record Commission =
  c_id :: nat
  c_agent :: nat
  c_booking :: nat
  c_amount :: money
  withdrawal_requested :: bool
  is_withdrawn :: bool

record Gift =
  g_id :: nat
  sender :: nat
  recipient_email :: string
  recipient_user :: "nat option"
  g_property :: nat
  g_status :: string
  expires_at :: "datetime option"
  reassigned_to :: "nat option"
  converted_to_credit :: bool

record Investment =
  i_id :: nat
  investor :: nat
  i_property :: nat
  payment_plan :: string
  i_total_price :: money
  amount_paid :: money
  remaining_balance :: money
  i_status :: string
  i_tx_ref :: "string option"

record RefundLog =
  r_id :: nat
  r_user :: nat
  r_amount :: money
  r_reason :: string

record db =
  users :: "User list"
  properties :: "Property list"
  bookings :: "Booking list"
  commissions :: "Commission list"
  gifts :: "Gift list"
  investments :: "Investment list"
  refund_logs :: "RefundLog list"

datatype exn =
    ValidationError string
  | DoesNotExist
  | MultipleObjectsReturned
  | IntegrityError
  | AttributeError
  | InvalidOperation

datatype response = Response nat string

section \<open>The ORM calls the views make\<close>

text \<open>\<^verbatim>\<open>Model.objects.get(...)\<close>: the one row that matches, or an exception.\<close>

definition objects_get :: "('a \<Rightarrow> bool) \<Rightarrow> 'a list \<Rightarrow> exn + 'a" where
  "objects_get P xs =
     (case filter P xs of
        [] \<Rightarrow> Inl DoesNotExist
      | [x] \<Rightarrow> Inr x
      | _ \<Rightarrow> Inl MultipleObjectsReturned)"

text \<open>\<^verbatim>\<open>Model.objects.filter(...).first()\<close>: the first matching row, or \<^verbatim>\<open>None\<close>.\<close>

definition objects_first :: "('a \<Rightarrow> bool) \<Rightarrow> 'a list \<Rightarrow> 'a option" where
  "objects_first P xs = find P xs"

text \<open>
  \<^verbatim>\<open>instance.save()\<close> of a row that has a primary key: the row with that key is
  overwritten, and the instance is inserted when there is none.
\<close>

definition save_row :: "('a \<Rightarrow> nat) \<Rightarrow> 'a \<Rightarrow> 'a list \<Rightarrow> 'a list" where
  "save_row key x xs =
     (if list_ex (\<lambda>y. key y = key x) xs
      then map (\<lambda>y. if key y = key x then x else y) xs
      else xs @ [x])"

text \<open>The primary key an insert assigns: one above every key of the table.\<close>

definition next_id :: "nat list \<Rightarrow> nat" where
  "next_id ks = Suc (fold max ks 0)"

text \<open>
  Writing a \<^verbatim>\<open>Decimal\<close> to a \<^verbatim>\<open>DecimalField(max_digits, decimal_places=2)\<close>: Django's
  \<^verbatim>\<open>format_number\<close> calls \<^verbatim>\<open>Decimal.quantize\<close> to a hundredth in a context of precision
  \<^verbatim>\<open>max_digits\<close>. The value is rounded to two places, a tie going to the even digit, and
  \<^verbatim>\<open>InvalidOperation\<close> is raised when the rounded value has more than \<^verbatim>\<open>max_digits\<close>
  digits.
\<close>

definition quantize :: "rat \<Rightarrow> rat" where
  "quantize v =
     (let n = \<lfloor>v * 100\<rfloor>; f = v * 100 - of_int n
      in if f < 1 / 2 then of_int n / 100
         else if 1 / 2 < f then of_int (n + 1) / 100
         else if even n then of_int n / 100
         else of_int (n + 1) / 100)"

definition to_column :: "nat \<Rightarrow> money \<Rightarrow> exn + money" where
  "to_column max_digits v =
     (let q = quantize v
      in if 10 ^ max_digits \<le> \<bar>q\<bar> * 100 then Inl InvalidOperation else Inr q)"

section \<open>Investment top-up (TopUpInvestmentView)\<close>

text \<open>
  \<^verbatim>\<open>investment.save()\<close> after a top-up: \<^verbatim>\<open>amount_paid\<close> and \<^verbatim>\<open>remaining_balance\<close> were
  computed with the request's amount and go through their columns,
  \<^verbatim>\<open>DecimalField(max_digits=12, decimal_places=2)\<close> both. The view compares
  \<^verbatim>\<open>remaining_balance\<close> with zero before the save, on the value it computed.
\<close>

definition Investment_save :: "db \<Rightarrow> Investment \<Rightarrow> exn + db" where
  "Investment_save d i =
     (case to_column 12 (amount_paid i) of
        Inl e \<Rightarrow> Inl e
      | Inr paid \<Rightarrow>
          (case to_column 12 (remaining_balance i) of
             Inl e \<Rightarrow> Inl e
           | Inr remaining \<Rightarrow>
               Inr (d\<lparr>investments :=
                        save_row i_id (i\<lparr>amount_paid := paid, remaining_balance := remaining\<rparr>)
                          (investments d)\<rparr>)))"

fun TopUpInvestmentView_post ::
  "datetime \<Rightarrow> db \<Rightarrow> User \<Rightarrow> nat \<Rightarrow> money \<Rightarrow> (exn + response) \<times> db" where
  "TopUpInvestmentView_post now d user investment_id amount =
     (if amount \<le> 0
      then (Inr (Response 400 ''Top-up amount must be greater than 0''), d)
      else
        (case objects_get (\<lambda>i. i_id i = investment_id \<and> investor i = u_id user)
                (investments d) of
           Inl DoesNotExist \<Rightarrow> (Inr (Response 404 ''Investment not found or not yours''), d)
         | Inl e \<Rightarrow> (Inl e, d)
         | Inr investment \<Rightarrow>
             if i_status investment = ''completed''
             then (Inr (Response 400 ''This investment is already completed''), d)
             else if amount > remaining_balance investment
             then (Inr (Response 400 ''Amount exceeds remaining balance''), d)
             else
               (let investment1 = investment
                      \<lparr>amount_paid := amount_paid investment + amount,
                       remaining_balance := remaining_balance investment - amount\<rparr>
                in if remaining_balance investment1 = 0
                   then
                     (let investment2 = investment1\<lparr>i_status := ''completed''\<rparr>;
                          user1 = user
                            \<lparr>membership_tier := Some ''Platinum'',
                             membership_expires_at := Some (now + timedelta_days 365),
                             shortlet_credit := 0\<rparr>;
                          d1 = d\<lparr>users := save_row u_id user1 (users d)\<rparr>
                      in case Investment_save d1 investment2 of
                           Inl e \<Rightarrow> (Inl e, d1)
                         | Inr d2 \<Rightarrow> (Inr (Response 200 ''Top-up successful''), d2))
                   else
                     (case Investment_save d investment1 of
                        Inl e \<Rightarrow> (Inl e, d)
                      | Inr d2 \<Rightarrow> (Inr (Response 200 ''Top-up successful''), d2)))))"

section \<open>Booking creation (BookingCreateView)\<close>

text \<open>
  What \<^verbatim>\<open>perform_create\<close> reads from \<^verbatim>\<open>serializer.validated_data\<close>. The serializer
  declares \<^verbatim>\<open>user\<close>, \<^verbatim>\<open>total_price\<close>, \<^verbatim>\<open>is_paid\<close> and \<^verbatim>\<open>created_at\<close> read-only, so
  \<^verbatim>\<open>is_cancelled\<close> is the request's to set (\<^verbatim>\<open>False\<close> when it is absent); a \<^verbatim>\<open>tx_ref\<close>
  of the request is overwritten by the keyword argument of \<^verbatim>\<open>serializer.save\<close>.
\<close>

record booking_data =
  vd_property :: Property
  vd_start_date :: date
  vd_end_date :: date
  vd_is_cancelled :: bool

text \<open>
  The insert behind \<^verbatim>\<open>serializer.save\<close>, with the constraints of the table:
  \<^verbatim>\<open>unique_together = ('property', 'start_date', 'end_date')\<close> and a unique \<^verbatim>\<open>tx_ref\<close>.
\<close>

definition Booking_insert :: "db \<Rightarrow> Booking \<Rightarrow> (exn + Booking) \<times> db" where
  "Booking_insert d b =
     (if list_ex (\<lambda>x. b_property x = b_property b \<and> start_date x = start_date b
                       \<and> end_date x = end_date b) (bookings d)
       then (Inl IntegrityError, d)
      else if b_tx_ref b \<noteq> None \<and> list_ex (\<lambda>x. b_tx_ref x = b_tx_ref b) (bookings d)
       then (Inl IntegrityError, d)
      else (let b1 = b\<lparr>b_id := next_id (map b_id (bookings d))\<rparr>
            in (Inr b1, d\<lparr>bookings := bookings d @ [b1]\<rparr>)))"

fun BookingCreateView_perform_create ::
  "string \<Rightarrow> db \<Rightarrow> User \<Rightarrow> booking_data \<Rightarrow> (exn + Booking) \<times> db" where
  "BookingCreateView_perform_create uuid4 d user vd =
     (let property = vd_property vd; start = vd_start_date vd; end = vd_end_date vd in
      if \<not> is_approved property \<or> property_type property \<noteq> ''shortlet''
      then (Inl (ValidationError ''Property not available for short-let booking.''), d)
      else
        (let overlaps = list_ex (\<lambda>b. b_property b = p_id property \<and> \<not> is_cancelled b
                                      \<and> start_date b < end \<and> end_date b > start)
                          (bookings d)
         in if overlaps
            then (Inl (ValidationError ''This date range is already booked.''), d)
            else
              (let days = end - start in
               if days \<le> 0
               then (Inl (ValidationError ''Invalid date range.''), d)
               else
                 (let total_price = of_int days * price property;
                      tx_ref = ''TobiTx-'' @ uuid4
                  in if shortlet_credit user \<noteq> 0 \<and> shortlet_credit user \<ge> total_price
                     then
                       (let user1 = user\<lparr>shortlet_credit := shortlet_credit user - total_price\<rparr>;
                            d1 = d\<lparr>users := save_row u_id user1 (users d)\<rparr>
                        in Booking_insert d1
                             \<lparr>b_id = 0, b_user = u_id user1, b_property = p_id property,
                              start_date = start, end_date = end,
                              b_total_price = total_price,
                              is_cancelled = vd_is_cancelled vd, is_paid = True,
                              b_tx_ref = Some tx_ref\<rparr>)
                     else (Inl (ValidationError
                             ''Insufficient shortlet credit to book this property.''), d)))))"

text \<open>
  The request as posted, and \<^verbatim>\<open>CreateAPIView.create\<close>: \<^verbatim>\<open>serializer.is_valid\<close>, then
  \<^verbatim>\<open>perform_create\<close>. \<^verbatim>\<open>BookingSerializer\<close> is a \<^verbatim>\<open>ModelSerializer\<close> over all fields of
  \<^verbatim>\<open>Booking\<close>. It resolves the listing's primary key to the stored row; and since the
  three fields of \<^verbatim>\<open>unique_together\<close> are writable, it refuses a request that repeats the
  listing and dates of a stored booking, cancelled or not. (The error texts carry the key;
  the model's do not.)
\<close>

record booking_request =
  rq_property :: nat
  rq_start_date :: date
  rq_end_date :: date
  rq_is_cancelled :: bool

definition BookingSerializer_is_valid :: "db \<Rightarrow> booking_request \<Rightarrow> exn + booking_data" where
  "BookingSerializer_is_valid d rq =
     (case objects_get (\<lambda>p. p_id p = rq_property rq) (properties d) of
        Inl DoesNotExist \<Rightarrow> Inl (ValidationError ''Invalid pk - object does not exist.'')
      | Inl e \<Rightarrow> Inl e
      | Inr property \<Rightarrow>
          if list_ex (\<lambda>b. b_property b = p_id property \<and> start_date b = rq_start_date rq
                           \<and> end_date b = rq_end_date rq) (bookings d)
          then Inl (ValidationError
                 ''The fields property, start_date, end_date must make a unique set.'')
          else Inr \<lparr>vd_property = property, vd_start_date = rq_start_date rq,
                    vd_end_date = rq_end_date rq, vd_is_cancelled = rq_is_cancelled rq\<rparr>)"

definition BookingCreateView_post ::
  "string \<Rightarrow> db \<Rightarrow> User \<Rightarrow> booking_request \<Rightarrow> (exn + Booking) \<times> db" where
  "BookingCreateView_post uuid4 d user rq =
     (case BookingSerializer_is_valid d rq of
        Inl e \<Rightarrow> (Inl e, d)
      | Inr vd \<Rightarrow> BookingCreateView_perform_create uuid4 d user vd)"

section \<open>Marking a booking paid (MarkBookingAsPaidView)\<close>

text \<open>
  The module defines \<^verbatim>\<open>MarkBookingAsPaidView\<close> twice; the second class statement
  (lines 193-222) rebinds the name, and it is the one \<^verbatim>\<open>core/urls.py\<close> routes to.
  \<^verbatim>\<open>Commission.amount\<close> is a \<^verbatim>\<open>DecimalField(max_digits=10, decimal_places=2)\<close>: the tenth
  of the total goes through that column. \<^verbatim>\<open>Commission.booking\<close> is a one-to-one field,
  so the insert of a second commission for a booking violates its unique constraint.
\<close>

definition Commission_insert :: "db \<Rightarrow> Commission \<Rightarrow> (exn + Commission) \<times> db" where
  "Commission_insert d c =
     (case to_column 10 (c_amount c) of
        Inl e \<Rightarrow> (Inl e, d)
      | Inr amount \<Rightarrow>
          if list_ex (\<lambda>x. c_booking x = c_booking c) (commissions d)
          then (Inl IntegrityError, d)
          else (let c1 = c\<lparr>c_id := next_id (map c_id (commissions d)), c_amount := amount\<rparr>
                in (Inr c1, d\<lparr>commissions := commissions d @ [c1]\<rparr>)))"

fun MarkBookingAsPaidView_post :: "db \<Rightarrow> nat \<Rightarrow> (exn + response) \<times> db" where
  "MarkBookingAsPaidView_post d booking_id =
     (case objects_get (\<lambda>b. b_id b = booking_id) (bookings d) of
        Inl DoesNotExist \<Rightarrow> (Inr (Response 404 ''Booking not found''), d)
      | Inl e \<Rightarrow> (Inl e, d)
      | Inr booking \<Rightarrow>
          if is_paid booking
          then (Inr (Response 200 ''Already paid''), d)
          else
            (let booking1 = booking\<lparr>is_paid := True\<rparr>;
                 d1 = d\<lparr>bookings := save_row b_id booking1 (bookings d)\<rparr>
             in case objects_first (\<lambda>p. p_id p = b_property booking1) (properties d1) of
                  None \<Rightarrow> (Inl DoesNotExist, d1)
                | Some property \<Rightarrow>
                    (let agent = p_agent property;
                         commission_amount = b_total_price booking1 * (1 / 10)
                     in case Commission_insert d1
                               \<lparr>c_id = 0, c_agent = agent, c_booking = b_id booking1,
                                c_amount = commission_amount,
                                withdrawal_requested = False, is_withdrawn = False\<rparr> of
                          (Inl e, d2) \<Rightarrow> (Inl e, d2)
                        | (Inr c, d2) \<Rightarrow> (Inr (Response 200 ''Booking marked as paid''), d2))))"

section \<open>Payment reconciliation (FlutterwaveWebhookView)\<close>

record webhook_data =
  event :: "string option"
  data_tx_ref :: "string option"
  data_status :: "string option"

text \<open>The second \<^verbatim>\<open>try\<close> block of the view: the reference matched against investments.\<close>

definition webhook_match_investment ::
  "datetime \<Rightarrow> db \<Rightarrow> string option \<Rightarrow> (exn + response) \<times> db" where
  "webhook_match_investment now d tx_ref =
     (case objects_get (\<lambda>i. i_tx_ref i = tx_ref) (investments d) of
        Inl DoesNotExist \<Rightarrow> (Inr (Response 404 ''No matching record found''), d)
      | Inl e \<Rightarrow> (Inl e, d)
      | Inr investment \<Rightarrow>
          if amount_paid investment < i_total_price investment
          then
            (let investment1 = investment
                   \<lparr>amount_paid := i_total_price investment,
                    remaining_balance := 0,
                    i_status := ''completed''\<rparr>
             in case objects_first (\<lambda>u. u_id u = investor investment1) (users d) of
                  None \<Rightarrow> (Inl DoesNotExist, d)
                | Some u \<Rightarrow>
                    (let u1 = u\<lparr>membership_tier := Some ''Platinum'',
                                 membership_expires_at := Some (now + timedelta_days 365),
                                 is_verified := True\<rparr>;
                         d1 = d\<lparr>users := save_row u_id u1 (users d)\<rparr>
                     in (Inr (Response 200 ''Investment marked as fully paid''),
                         d1\<lparr>investments := save_row i_id investment1 (investments d1)\<rparr>)))
          else (Inr (Response 404 ''No matching record found''), d))"

fun FlutterwaveWebhookView_post ::
  "datetime \<Rightarrow> db \<Rightarrow> webhook_data \<Rightarrow> (exn + response) \<times> db" where
  "FlutterwaveWebhookView_post now d data =
     (if event data \<noteq> Some ''charge.completed''
      then (Inr (Response 200 ''Ignored non-payment event''), d)
      else
        (let tx_ref = data_tx_ref data; status = data_status data in
         if status \<noteq> Some ''successful''
         then (Inr (Response 200 ''Payment not successful''), d)
         else
           (case objects_get (\<lambda>b. b_tx_ref b = tx_ref) (bookings d) of
              Inl DoesNotExist \<Rightarrow> webhook_match_investment now d tx_ref
            | Inl e \<Rightarrow> (Inl e, d)
            | Inr booking \<Rightarrow>
                if \<not> is_paid booking
                then (Inr (Response 200 ''Booking marked as paid''),
                      d\<lparr>bookings := save_row b_id (booking\<lparr>is_paid := True\<rparr>) (bookings d)\<rparr>)
                else webhook_match_investment now d tx_ref)))"

section \<open>Gifts (ExpireOldGiftsView, ReassignGiftView)\<close>

text \<open>
  The loop of \<^verbatim>\<open>ExpireOldGiftsView.post\<close> over the gifts the query selected. The branch
  that converts a gift reads \<^verbatim>\<open>gift.sender.wallet_balance\<close>; \<^verbatim>\<open>User\<close> declares no such
  field (its balance is \<^verbatim>\<open>shortlet_credit\<close>), so the read raises \<^verbatim>\<open>AttributeError\<close>, after
  the gift's new status was saved and before anything of the branch is.
\<close>

fun expire_gifts_loop ::
  "db \<Rightarrow> Gift list \<Rightarrow> nat \<Rightarrow> nat \<Rightarrow> (exn + nat \<times> nat) \<times> db" where
  "expire_gifts_loop d [] expired converted = (Inr (expired, converted), d)"
| "expire_gifts_loop d (gift # rest) expired converted =
     (let gift1 = gift\<lparr>g_status := ''expired''\<rparr>;
          d1 = d\<lparr>gifts := save_row g_id gift1 (gifts d)\<rparr>;
          expired1 = expired + 1
      in if reassigned_to gift1 = None \<and> \<not> converted_to_credit gift1
         then (Inl AttributeError, d1)
         else expire_gifts_loop d1 rest expired1 converted)"

definition ExpireOldGiftsView_post :: "datetime \<Rightarrow> db \<Rightarrow> (exn + nat \<times> nat) \<times> db" where
  "ExpireOldGiftsView_post now d =
     (let gifts_selected =
            filter (\<lambda>g. (case objects_first (\<lambda>p. p_id p = g_property g) (properties d) of
                            None \<Rightarrow> False
                          | Some p \<Rightarrow> property_type p = ''shortlet'')
                       \<and> (case expires_at g of None \<Rightarrow> False | Some t \<Rightarrow> t < now)
                       \<and> g_status g = ''pending'')
              (gifts d)
      in expire_gifts_loop d gifts_selected 0 0)"

text \<open>
  \<^verbatim>\<open>ReassignGiftView.post\<close>, the specification's reassign operation. (In \<^verbatim>\<open>core/urls.py\<close>
  the pattern of the gift-decision view is listed before the reassign pattern and matches
  its URLs too; the view is modelled as it is written, whatever route reaches it.)
  \<^verbatim>\<open>new_email\<close> is \<^verbatim>\<open>request.data.get("new_email")\<close>, \<^verbatim>\<open>None\<close> when the request has none;
  \<^verbatim>\<open>recipient_email\<close> is a column without \<^verbatim>\<open>null=True\<close>, so saving \<^verbatim>\<open>None\<close> there is
  refused by the database.
\<close>

fun ReassignGiftView_post ::
  "db \<Rightarrow> User \<Rightarrow> nat \<Rightarrow> string option \<Rightarrow> (exn + response) \<times> db" where
  "ReassignGiftView_post d user gift_id new_email =
     (case objects_first (\<lambda>g. g_id g = gift_id \<and> sender g = u_id user
                               \<and> g_status g = ''pending'') (gifts d) of
        None \<Rightarrow> (Inr (Response 404 ''Gift not found or cannot be reassigned''), d)
      | Some gift \<Rightarrow>
          if reassigned_to gift \<noteq> None
          then (Inr (Response 400 ''Gift has already been reassigned''), d)
          else
            (case new_email of
               None \<Rightarrow> (Inl IntegrityError, d)
             | Some e \<Rightarrow>
                 (let new_recipient = objects_first (\<lambda>u. email u = e) (users d);
                      gift1 = gift\<lparr>recipient_email := e,
                                   recipient_user := map_option u_id new_recipient,
                                   reassigned_to := map_option u_id new_recipient\<rparr>
                  in (Inr (Response 200 ''Gift successfully reassigned.''),
                      d\<lparr>gifts := save_row g_id gift1 (gifts d)\<rparr>))))"

section \<open>Investment creation (CreateInvestmentView)\<close>

text \<open>
  The insert behind \<^verbatim>\<open>serializer.save\<close>, with the constraints of the table:
  \<^verbatim>\<open>unique_together = ('investor', 'property')\<close> and a unique \<^verbatim>\<open>tx_ref\<close>. The serializer
  declares \<^verbatim>\<open>investor\<close> read-only, so it cannot check the pair itself and the database
  is what refuses a duplicate. \<^verbatim>\<open>amount_paid\<close> and \<^verbatim>\<open>remaining_balance\<close>, which the view
  computed, go through their columns first.
\<close>

definition Investment_insert :: "db \<Rightarrow> Investment \<Rightarrow> (exn + Investment) \<times> db" where
  "Investment_insert d i =
     (case to_column 12 (amount_paid i) of
        Inl e \<Rightarrow> (Inl e, d)
      | Inr paid \<Rightarrow>
          (case to_column 12 (remaining_balance i) of
             Inl e \<Rightarrow> (Inl e, d)
           | Inr remaining \<Rightarrow>
               if list_ex (\<lambda>x. investor x = investor i \<and> i_property x = i_property i)
                    (investments d)
                then (Inl IntegrityError, d)
               else if i_tx_ref i \<noteq> None
                       \<and> list_ex (\<lambda>x. i_tx_ref x = i_tx_ref i) (investments d)
                then (Inl IntegrityError, d)
               else (let i1 = i\<lparr>i_id := next_id (map i_id (investments d)),
                                 amount_paid := paid, remaining_balance := remaining\<rparr>
                     in (Inr i1, d\<lparr>investments := investments d @ [i1]\<rparr>))))"

text \<open>
  The end of \<^verbatim>\<open>perform_create\<close>, which both plans reach: \<^verbatim>\<open>user.save()\<close>, then
  \<^verbatim>\<open>serializer.save(...)\<close>. The view passes no \<^verbatim>\<open>status\<close> and the serializer declares it
  read-only, so the row gets the field's default, \<^verbatim>\<open>'active'\<close>.
\<close>

definition save_user_then_investment ::
  "string \<Rightarrow> db \<Rightarrow> User \<Rightarrow> Property \<Rightarrow> string \<Rightarrow> money \<Rightarrow> money \<Rightarrow> money
     \<Rightarrow> (exn + Investment) \<times> db" where
  "save_user_then_investment uuid4 d user property plan total_price paid remaining =
     (let tx_ref = ''TobiInvest-'' @ uuid4;
          d1 = d\<lparr>users := save_row u_id user (users d)\<rparr>
      in Investment_insert d1
           \<lparr>i_id = 0, investor = u_id user, i_property = p_id property,
            payment_plan = plan, i_total_price = total_price, amount_paid = paid,
            remaining_balance = remaining, i_status = ''active'',
            i_tx_ref = Some tx_ref\<rparr>)"

fun CreateInvestmentView_perform_create ::
  "string \<Rightarrow> datetime \<Rightarrow> db \<Rightarrow> User \<Rightarrow> Property \<Rightarrow> string \<Rightarrow> (exn + Investment) \<times> db" where
  "CreateInvestmentView_perform_create uuid4 now d user property plan =
     (if role user \<noteq> INVESTOR
      then (Inl (ValidationError ''Only investors can invest in properties.''), d)
      else if \<not> is_approved property
      then (Inl (ValidationError ''This property is not approved for investment.''), d)
      else
        (case cost_price property of
           None \<Rightarrow> (Inl (ValidationError ''This property doesn't have a cost price set.''), d)
         | Some total_price \<Rightarrow>
             if total_price = 0
             then (Inl (ValidationError ''This property doesn't have a cost price set.''), d)
             else if plan = ''full''
             then
               (let amount_paid = total_price;
                    remaining = 0;
                    user1 = user\<lparr>membership_tier := Some ''Platinum'',
                                 membership_expires_at := Some (now + timedelta_days 365)\<rparr>
                in save_user_then_investment uuid4 d user1 property plan
                     total_price amount_paid remaining)
             else if plan = ''installment''
             then
               (let amount_paid = total_price * (60 / 100);
                    remaining = total_price - amount_paid;
                    user1 = user\<lparr>membership_tier := Some ''Gold'',
                                 membership_expires_at := Some (now + timedelta_days 365),
                                 shortlet_credit := 5000000\<rparr>
                in save_user_then_investment uuid4 d user1 property plan
                     total_price amount_paid remaining)
             else (Inl (ValidationError ''Invalid payment plan.''), d)))"

section \<open>Cancelling a booking (CancelBookingView, AdminCancelBookingView)\<close>

definition RefundLog_create :: "db \<Rightarrow> RefundLog \<Rightarrow> db" where
  "RefundLog_create d r =
     d\<lparr>refund_logs := refund_logs d @ [r\<lparr>r_id := next_id (map r_id (refund_logs d))\<rparr>]\<rparr>"

fun CancelBookingView_post :: "date \<Rightarrow> db \<Rightarrow> User \<Rightarrow> nat \<Rightarrow> (exn + response) \<times> db" where
  "CancelBookingView_post today d user booking_id =
     (case objects_get (\<lambda>b. b_id b = booking_id \<and> b_user b = u_id user) (bookings d) of
        Inl DoesNotExist \<Rightarrow> (Inr (Response 404 ''Booking not found''), d)
      | Inl e \<Rightarrow> (Inl e, d)
      | Inr booking \<Rightarrow>
          if is_cancelled booking
          then (Inr (Response 400 ''This booking is already cancelled.''), d)
          else if start_date booking \<le> today
          then (Inr (Response 400
                  ''You cannot cancel a booking that has already started.''), d)
          else
            (let booking1 = booking\<lparr>is_cancelled := True\<rparr>;
                 d1 = d\<lparr>bookings := save_row b_id booking1 (bookings d)\<rparr>
             in if is_paid booking1
                then
                  (case objects_first (\<lambda>p. p_id p = b_property booking1) (properties d1) of
                     None \<Rightarrow> (Inl DoesNotExist, d1)
                   | Some property \<Rightarrow>
                       (Inr (Response 200 ''Booking cancelled and refund logged''),
                        RefundLog_create d1
                          \<lparr>r_id = 0, r_user = u_id user, r_amount = b_total_price booking1,
                           r_reason = ''Cancelled short-let booking for '' @ [CHR 0x27]
                                        @ title property @ [CHR 0x27]\<rparr>))
                else (Inr (Response 200 ''Booking cancelled and refund logged''), d1)))"

fun AdminCancelBookingView_post :: "db \<Rightarrow> nat \<Rightarrow> (exn + response) \<times> db" where
  "AdminCancelBookingView_post d booking_id =
     (case objects_get (\<lambda>b. b_id b = booking_id) (bookings d) of
        Inl DoesNotExist \<Rightarrow> (Inr (Response 404 ''Booking not found''), d)
      | Inl e \<Rightarrow> (Inl e, d)
      | Inr booking \<Rightarrow>
          if is_cancelled booking
          then (Inr (Response 400 ''Booking is already cancelled.''), d)
          else
            (let booking1 = booking\<lparr>is_cancelled := True\<rparr>;
                 d1 = d\<lparr>bookings := save_row b_id booking1 (bookings d)\<rparr>
             in case objects_first (\<lambda>u. u_id u = b_user booking1) (users d1) of
                  None \<Rightarrow> (Inl DoesNotExist, d1)
                | Some booker \<Rightarrow>
                    (let d2 =
                       (if is_paid booking1
                        then
                          (case objects_first (\<lambda>p. p_id p = b_property booking1)
                                  (properties d1) of
                             None \<Rightarrow> Inl DoesNotExist
                           | Some property \<Rightarrow>
                               Inr (RefundLog_create d1
                                 \<lparr>r_id = 0, r_user = u_id booker,
                                  r_amount = b_total_price booking1,
                                  r_reason = ''Admin cancelled booking for '' @ [CHR 0x27]
                                               @ title property @ [CHR 0x27]\<rparr>))
                        else Inr d1)
                     in case d2 of
                          Inl e \<Rightarrow> (Inl e, d1)
                        | Inr d3 \<Rightarrow>
                            (Inr (Response 200 (''Booking for '' @ email booker
                                    @ '' has been cancelled by admin.'')), d3))))"

declare TopUpInvestmentView_post.simps [simp del]
declare CancelBookingView_post.simps [simp del]
declare AdminCancelBookingView_post.simps [simp del]
declare BookingCreateView_perform_create.simps [simp del]
declare MarkBookingAsPaidView_post.simps [simp del]
declare FlutterwaveWebhookView_post.simps [simp del]
declare ReassignGiftView_post.simps [simp del]
declare CreateInvestmentView_perform_create.simps [simp del]

section \<open>Sequences of requests\<close>

text \<open>
  The requests that write a \<^verbatim>\<open>Booking\<close> or insert a \<^verbatim>\<open>Commission\<close>, and the database
  after a list of them, served one after the other. \<open>CreateBooking\<close> is
  \<^verbatim>\<open>perform_create\<close> on whatever data the serializer let through.
\<close>

datatype request =
    CreateBooking string User booking_data
  | MarkBookingAsPaid nat
  | FlutterwaveWebhook datetime webhook_data
  | CancelBooking date User nat
  | AdminCancelBooking nat

fun handle_request :: "db \<Rightarrow> request \<Rightarrow> db" where
  "handle_request d (CreateBooking uuid4 user vd) =
     snd (BookingCreateView_perform_create uuid4 d user vd)"
| "handle_request d (MarkBookingAsPaid booking_id) =
     snd (MarkBookingAsPaidView_post d booking_id)"
| "handle_request d (FlutterwaveWebhook now data) =
     snd (FlutterwaveWebhookView_post now d data)"
| "handle_request d (CancelBooking today user booking_id) =
     snd (CancelBookingView_post today d user booking_id)"
| "handle_request d (AdminCancelBooking booking_id) =
     snd (AdminCancelBookingView_post d booking_id)"

fun run_requests :: "db \<Rightarrow> request list \<Rightarrow> db" where
  "run_requests d [] = d"
| "run_requests d (r # rs) = run_requests (handle_request d r) rs"

section \<open>Predicates of the specification\<close>

text \<open>An outcome that is a failure: an exception, or a response with an error status.\<close>

fun is_error :: "exn + response \<Rightarrow> bool" where
  "is_error (Inl e) = True"
| "is_error (Inr (Response c m)) = (400 \<le> c)"

text \<open>No booking and investment share a transaction reference.\<close>

definition tx_refs_disjoint :: "db \<Rightarrow> bool" where
  "tx_refs_disjoint d =
     list_all (\<lambda>b. list_all (\<lambda>i. i_tx_ref i \<noteq> b_tx_ref b) (investments d)) (bookings d)"

text \<open>
  The references as the views write them: \<^verbatim>\<open>TobiTx-\<close> and a uuid for a booking,
  \<^verbatim>\<open>TobiInvest-\<close> and a uuid for an investment.
\<close>

definition refs_by_construction :: "db \<Rightarrow> bool" where
  "refs_by_construction d \<longleftrightarrow>
     list_all (\<lambda>b. case b_tx_ref b of None \<Rightarrow> False | Some r \<Rightarrow> take 7 r = ''TobiTx-'')
       (bookings d) \<and>
     list_all (\<lambda>i. case i_tx_ref i of None \<Rightarrow> False | Some r \<Rightarrow> take 11 r = ''TobiInvest-'')
       (investments d)"

text \<open>
  No two active bookings of one listing overlap, under the half-open test of the booking
  view: \<^verbatim>\<open>a.start < b.end and a.end > b.start\<close>.
\<close>

definition no_double_booking :: "Booking list \<Rightarrow> bool" where
  "no_double_booking bs =
     list_all (\<lambda>a. list_all (\<lambda>b.
         b_id a = b_id b \<or> b_property a \<noteq> b_property b \<or> is_cancelled a \<or> is_cancelled b
         \<or> \<not> (start_date a < end_date b \<and> end_date a > start_date b)) bs) bs"

text \<open>Every row of booking \<open>k\<close> is paid, and the commissions of booking \<open>k\<close> are \<open>cs\<close>.\<close>

definition settled :: "nat \<Rightarrow> Commission list \<Rightarrow> db \<Rightarrow> bool" where
  "settled k cs d \<longleftrightarrow>
     list_all (\<lambda>x. b_id x \<noteq> k \<or> is_paid x) (bookings d) \<and>
     filter (\<lambda>c. c_booking c = k) (commissions d) = cs"

section \<open>Example states\<close>

text \<open>
  An agent with two approved listings, a short-let at 10,000 a night and an investment
  property of cost price 1,000,000; a customer with 30,000 of short-let credit; an investor.
\<close>

definition ex_agent :: User where
  "ex_agent = \<lparr>u_id = 1, email = ''agent@tobi.ng'', role = AGENT, is_verified = True,
     membership_tier = None, membership_expires_at = None, shortlet_credit = 0\<rparr>"

definition ex_customer :: User where
  "ex_customer = \<lparr>u_id = 2, email = ''customer@tobi.ng'', role = CUSTOMER, is_verified = False,
     membership_tier = None, membership_expires_at = None, shortlet_credit = 30000\<rparr>"

definition ex_investor :: User where
  "ex_investor = \<lparr>u_id = 3, email = ''investor@tobi.ng'', role = INVESTOR, is_verified = False,
     membership_tier = None, membership_expires_at = None, shortlet_credit = 0\<rparr>"

definition ex_shortlet :: Property where
  "ex_shortlet = \<lparr>p_id = 1, p_agent = 1, title = ''Lekki flat'', price = 10000,
     property_type = ''shortlet'', cost_price = None, is_approved = True\<rparr>"

definition ex_estate :: Property where
  "ex_estate = \<lparr>p_id = 2, p_agent = 1, title = ''Ikoyi estate'', price = 1000000,
     property_type = ''investment'', cost_price = Some 1000000, is_approved = True\<rparr>"

definition ex_db :: db where
  "ex_db = \<lparr>users = [ex_agent, ex_customer, ex_investor],
     properties = [ex_shortlet, ex_estate],
     bookings = [], commissions = [], gifts = [], investments = [], refund_logs = []\<rparr>"

text \<open>A request for the nights of 2025-06-01 to 2025-06-04 (ordinals 739403 to 739406).\<close>

definition ex_stay :: booking_data where
  "ex_stay = \<lparr>vd_property = ex_shortlet, vd_start_date = 739403, vd_end_date = 739406,
     vd_is_cancelled = False\<rparr>"

text \<open>The same stay as a stored booking that is not paid yet, and the provider's webhook
  for its reference.\<close>

definition ex_unpaid :: Booking where
  "ex_unpaid = \<lparr>b_id = 1, b_user = 2, b_property = 1, start_date = 739403,
     end_date = 739406, b_total_price = 30000, is_cancelled = False, is_paid = False,
     b_tx_ref = Some ''TobiTx-7f''\<rparr>"

definition ex_db_unpaid :: db where
  "ex_db_unpaid = ex_db\<lparr>bookings := [ex_unpaid]\<rparr>"

definition ex_hook :: "string \<Rightarrow> webhook_data" where
  "ex_hook r = \<lparr>event = Some ''charge.completed'', data_tx_ref = Some r,
     data_status = Some ''successful''\<rparr>"

text \<open>A short-let gift of the customer's, created at second 0 and so expiring 7 days
  later, never reassigned.\<close>

definition ex_gift :: Gift where
  "ex_gift = \<lparr>g_id = 1, sender = 2, recipient_email = ''friend@tobi.ng'',
     recipient_user = None, g_property = 1, g_status = ''pending'',
     expires_at = Some 604800, reassigned_to = None, converted_to_credit = False\<rparr>"

definition ex_db_gift :: db where
  "ex_db_gift = ex_db\<lparr>gifts := [ex_gift]\<rparr>"

text \<open>The listing of the booking example after its agent edited it: \<^verbatim>\<open>perform_update\<close>
  resets \<^verbatim>\<open>is_approved\<close>, and the stored booking stays.\<close>

definition ex_db_edited :: db where
  "ex_db_edited = ex_db\<lparr>properties := [ex_shortlet\<lparr>is_approved := False\<rparr>, ex_estate],
     bookings := [ex_unpaid\<lparr>is_paid := True\<rparr>]\<rparr>"

text \<open>The short-let stored at no charge.\<close>

definition ex_db_free :: db where
  "ex_db_free = ex_db\<lparr>properties := [ex_shortlet\<lparr>price := 0\<rparr>, ex_estate]\<rparr>"

text \<open>
  Posted requests for the short-let: the nights of 2025-06-01 to 2025-06-04 again, the
  one night of 2025-06-02 inside them, the three nights from 2025-06-02 that run over
  their end, and the three nights that start on the day they end.
\<close>

definition ex_rq_stay :: booking_request where
  "ex_rq_stay = \<lparr>rq_property = 1, rq_start_date = 739403, rq_end_date = 739406,
     rq_is_cancelled = False\<rparr>"

definition ex_rq_inside :: booking_request where
  "ex_rq_inside = \<lparr>rq_property = 1, rq_start_date = 739404, rq_end_date = 739405,
     rq_is_cancelled = False\<rparr>"

definition ex_rq_over :: booking_request where
  "ex_rq_over = \<lparr>rq_property = 1, rq_start_date = 739404, rq_end_date = 739407,
     rq_is_cancelled = False\<rparr>"

definition ex_rq_next :: booking_request where
  "ex_rq_next = \<lparr>rq_property = 1, rq_start_date = 739406, rq_end_date = 739409,
     rq_is_cancelled = False\<rparr>"

text \<open>The investor after an installment investment in the estate, made at second 0 with
  uuid \<open>9c\<close>, and after the top-up at second 1000 that completes it.\<close>

definition ex_installment :: Investment where
  "ex_installment = \<lparr>i_id = 1, investor = 3, i_property = 2, payment_plan = ''installment'',
     i_total_price = 1000000, amount_paid = 600000, remaining_balance = 400000,
     i_status = ''active'', i_tx_ref = Some ''TobiInvest-9c''\<rparr>"

definition ex_gold :: User where
  "ex_gold = ex_investor\<lparr>membership_tier := Some ''Gold'',
     membership_expires_at := Some 31536000, shortlet_credit := 5000000\<rparr>"

definition ex_db_installment :: db where
  "ex_db_installment = ex_db\<lparr>users := [ex_agent, ex_customer, ex_gold],
     investments := [ex_installment]\<rparr>"

definition ex_platinum :: User where
  "ex_platinum = ex_investor\<lparr>membership_tier := Some ''Platinum'',
     membership_expires_at := Some 31537000, shortlet_credit := 0\<rparr>"

definition ex_db_completed :: db where
  "ex_db_completed = ex_db\<lparr>users := [ex_agent, ex_customer, ex_platinum],
     investments := [ex_installment\<lparr>amount_paid := 1000000, remaining_balance := 0,
                                     i_status := ''completed''\<rparr>]\<rparr>"

definition ex_db_both :: db where
  "ex_db_both = ex_db_installment\<lparr>bookings := [ex_unpaid]\<rparr>"

definition ex_db_booked :: db where
  "ex_db_booked = ex_db\<lparr>bookings := [ex_unpaid\<lparr>is_paid := True\<rparr>]\<rparr>"

text \<open>The stay booked and then cancelled.\<close>

definition ex_db_cancelled :: db where
  "ex_db_cancelled = ex_db\<lparr>bookings := [ex_unpaid\<lparr>is_paid := True, is_cancelled := True\<rparr>]\<rparr>"

text \<open>The database after the customer booked the stay with uuid \<open>7f\<close>.\<close>

definition ex_db_after_stay :: db where
  "ex_db_after_stay = ex_db\<lparr>users := [ex_agent, ex_customer\<lparr>shortlet_credit := 0\<rparr>, ex_investor],
     bookings := [ex_unpaid\<lparr>is_paid := True\<rparr>]\<rparr>"

section \<open>Facts about the ORM calls\<close>

lemmas ex_defs = ex_agent_def ex_customer_def ex_investor_def ex_shortlet_def ex_estate_def
  ex_db_def ex_stay_def ex_unpaid_def ex_db_unpaid_def ex_hook_def ex_gift_def ex_db_gift_def
  ex_db_edited_def ex_db_free_def ex_installment_def ex_gold_def ex_db_installment_def
  ex_platinum_def ex_db_completed_def ex_db_both_def ex_db_booked_def ex_db_cancelled_def
  ex_rq_stay_def ex_rq_inside_def ex_rq_over_def ex_rq_next_def

text \<open>The floor of a quotient of numerals, for evaluating \<open>quantize\<close>.\<close>

lemma floor_rat_div: "\<lfloor>(numeral a :: rat) / numeral b\<rfloor> = numeral a div numeral b"
  using floor_divide_of_int_eq [of "numeral a" "numeral b", where ?'a = rat] by simp

lemma floor_rat_one_div: "\<lfloor>(1 :: rat) / numeral b\<rfloor> = 1 div numeral b"
  using floor_divide_of_int_eq [of 1 "numeral b", where ?'a = rat] by simp

lemmas orm_defs = objects_get_def objects_first_def save_row_def next_id_def
  Booking_insert_def Commission_insert_def Investment_insert_def Investment_save_def
  RefundLog_create_def to_column_def quantize_def floor_rat_div floor_rat_one_div
  timedelta_days_def Let_def


lemma find_save_row:
  "find (\<lambda>y. key y = key x) (save_row key x xs) = Some x"
proof (induction xs)
  case Nil
  show ?case by (simp add: save_row_def)
next
  case (Cons a xs)
  then show ?case
    by (auto simp: save_row_def list_ex_iff split: if_splits)
qed

lemma objects_get_mem:
  "objects_get P xs = Inr x \<Longrightarrow> x \<in> set xs \<and> P x"
proof -
  assume h: "objects_get P xs = Inr x"
  then have "filter P xs = [x]"
    by (auto simp: objects_get_def split: list.splits)
  then have "x \<in> set (filter P xs)" by simp
  then show ?thesis by simp
qed

lemma find_save_row_key:
  "key x = k \<Longrightarrow> find (\<lambda>y. key y = k) (save_row key x xs) = Some x"
  using find_save_row [of key x xs] by simp

lemma set_save_row:
  "y \<in> set (save_row key x xs) \<Longrightarrow> y = x \<or> (y \<in> set xs \<and> key y \<noteq> key x)"
  by (auto simp: save_row_def list_ex_iff split: if_splits)

lemma objects_get_filter:
  "objects_get P xs = Inr x \<Longrightarrow> filter P xs = [x]"
  by (auto simp: objects_get_def split: list.splits)

lemma filter_pk:
  "distinct (map key xs) \<Longrightarrow> x \<in> set xs \<Longrightarrow>
   filter (\<lambda>y. key y = key x \<and> Q y) xs = (if Q x then [x] else [])"
proof (induction xs)
  case Nil
  then show ?case by simp
next
  case (Cons a xs)
  show ?case
  proof (cases "a = x")
    case True
    with Cons.prems have "\<forall>y\<in>set xs. key y \<noteq> key x" by (auto simp: image_iff)
    then have "filter (\<lambda>y. key y = key x \<and> Q y) xs = []" by (simp add: filter_empty_conv)
    with True show ?thesis by simp
  next
    case False
    with Cons.prems have "x \<in> set xs" "key a \<noteq> key x" by (auto simp: image_iff)
    with Cons show ?thesis by simp
  qed
qed

lemma objects_get_pk:
  "distinct (map key xs) \<Longrightarrow> x \<in> set xs \<Longrightarrow>
   objects_get (\<lambda>y. key y = key x \<and> Q y) xs = (if Q x then Inr x else Inl DoesNotExist)"
  by (simp add: objects_get_def filter_pk)

text \<open>Saving a changed copy of the one row a query matched leaves no other match.\<close>

lemma objects_get_save_row:
  assumes g: "objects_get P xs = Inr x"
      and k: "key x' = key x"
      and g': "objects_get P (save_row key x' xs) = Inr y"
  shows "y = x'"
proof -
  from g have f: "filter P xs = [x]" by (rule objects_get_filter)
  from g' have "y \<in> set (save_row key x' xs)" "P y"
    using objects_get_mem [OF g'] by simp_all
  then consider "y = x'" | "y \<in> set xs" "key y \<noteq> key x'"
    using set_save_row [of y key x' xs] by blast
  then show ?thesis
  proof cases
    case 1
    then show ?thesis .
  next
    case 2
    with \<open>P y\<close> have "y \<in> set (filter P xs)" by simp
    with f have "y = x" by simp
    with 2 k show ?thesis by simp
  qed
qed

lemma fold_max_ge:
  "(a::nat) \<le> fold max ks a \<and> (\<forall>k\<in>set ks. k \<le> fold max ks a)"
proof (induction ks arbitrary: a)
  case Nil
  show ?case by simp
next
  case (Cons x xs)
  have 1: "max x a \<le> fold max xs (max x a)" using Cons.IH [of "max x a"] by simp
  have 2: "\<forall>k\<in>set xs. k \<le> fold max xs (max x a)" using Cons.IH [of "max x a"] by simp
  from 1 have "a \<le> fold max xs (max x a)" "x \<le> fold max xs (max x a)" by simp_all
  with 2 show ?case by simp
qed

lemma next_id_fresh: "next_id ks \<notin> set ks"
proof
  assume "next_id ks \<in> set ks"
  then have "next_id ks \<le> fold max ks 0" using fold_max_ge [of 0 ks] by blast
  then show False by (simp add: next_id_def)
qed

section \<open>Investment top-up\<close>

text \<open>
  What the top-up does with an amount that the columns hold as it is, on a stored
  investment \<open>iv\<close> (primary keys are distinct): it fails, and changes nothing, when the
  user is not the investor, when the amount is not positive, when the investment is
  completed, or when the amount exceeds the remaining balance; otherwise the stored
  investment has the amount added to \<open>amount_paid\<close> and taken from \<open>remaining_balance\<close>,
  and it is completed, with the user made Platinum for 365 days and left without credit,
  exactly when the new balance is zero.
\<close>

lemma to_column_zero: "to_column 12 0 = Inr 0"
  by (simp add: to_column_def quantize_def Let_def)

lemma topUp_exact:
  assumes pk: "distinct (map i_id (investments d))"
      and mem: "iv \<in> set (investments d)"
      and exact: "to_column 12 (amount_paid iv + amount) = Inr (amount_paid iv + amount)"
        "to_column 12 (remaining_balance iv - amount) = Inr (remaining_balance iv - amount)"
  shows
    "(let r = TopUpInvestmentView_post now d user (i_id iv) amount; d' = snd r in
      if investor iv \<noteq> u_id user \<or> amount \<le> 0 \<or> i_status iv = ''completed''
         \<or> amount > remaining_balance iv
      then is_error (fst r) \<and> d' = d
      else
        fst r = Inr (Response 200 ''Top-up successful'') \<and>
        find (\<lambda>i. i_id i = i_id iv) (investments d') =
          Some (iv\<lparr>amount_paid := amount_paid iv + amount,
                    remaining_balance := remaining_balance iv - amount,
                    i_status := (if remaining_balance iv - amount = 0 then ''completed''
                                 else i_status iv)\<rparr>) \<and>
        0 \<le> remaining_balance iv - amount \<and>
        (if remaining_balance iv - amount = 0
         then find (\<lambda>u. u_id u = u_id user) (users d') =
                Some (user\<lparr>membership_tier := Some ''Platinum'',
                           membership_expires_at := Some (now + timedelta_days 365),
                           shortlet_credit := 0\<rparr>)
         else users d' = users d))"
proof -
  have g: "objects_get (\<lambda>i. i_id i = i_id iv \<and> investor i = u_id user) (investments d)
           = (if investor iv = u_id user then Inr iv else Inl DoesNotExist)"
    using objects_get_pk [OF pk mem, of "\<lambda>i. investor i = u_id user"] by simp
  show ?thesis
  proof (cases "remaining_balance iv - amount = 0")
    case True
    then have "remaining_balance iv = amount" by simp
    with exact(1) show ?thesis
      by (simp add: TopUpInvestmentView_post.simps g Let_def Investment_save_def
            find_save_row_key to_column_zero)
  next
    case False
    with exact show ?thesis
      by (simp add: TopUpInvestmentView_post.simps g Let_def Investment_save_def
            find_save_row_key)
  qed
qed

text \<open>
  Claim C8. The investor owes 400,000 on the installment investment and tops up
  399,999.999. The view adds and subtracts the amount, finds the balance of 0.001 not
  zero, and saves: the columns round, and the investment is stored with \<open>amount_paid\<close>
  1,000,000 and \<open>remaining_balance\<close> 0 while its status is still \<^verbatim>\<open>'active'\<close> and the
  investor still Gold with the installment credit. A later top-up of 0.01 is refused as
  exceeding the balance. And a top-up of 0.001 is answered as successful and stores the
  row as it was.
\<close>

theorem topUp_rounds_to_zero_without_completing:
  "TopUpInvestmentView_post 1000 ex_db_installment ex_gold 1 (399999999 / 1000)
     = (Inr (Response 200 ''Top-up successful''),
        ex_db_installment\<lparr>investments :=
          [ex_installment\<lparr>amount_paid := 1000000, remaining_balance := 0\<rparr>]\<rparr>)
   \<and> TopUpInvestmentView_post 2000
        (ex_db_installment\<lparr>investments :=
          [ex_installment\<lparr>amount_paid := 1000000, remaining_balance := 0\<rparr>]\<rparr>)
        ex_gold 1 (1 / 100)
     = (Inr (Response 400 ''Amount exceeds remaining balance''),
        ex_db_installment\<lparr>investments :=
          [ex_installment\<lparr>amount_paid := 1000000, remaining_balance := 0\<rparr>]\<rparr>)
   \<and> TopUpInvestmentView_post 1000 ex_db_installment ex_gold 1 (1 / 1000)
     = (Inr (Response 200 ''Top-up successful''), ex_db_installment)"
  by (simp add: TopUpInvestmentView_post.simps ex_defs orm_defs)

section \<open>Payment reconciliation twice\<close>

lemma webhook_match_investment_bookings:
  "bookings (snd (webhook_match_investment now d r)) = bookings d"
  by (simp add: webhook_match_investment_def Let_def
           split: sum.splits exn.splits option.splits)

lemma webhook_match_investment_commissions:
  "commissions (snd (webhook_match_investment now d r)) = commissions d"
  by (simp add: webhook_match_investment_def Let_def
           split: sum.splits exn.splits option.splits)

lemma webhook_match_investment_idem:
  "snd (webhook_match_investment n2 (snd (webhook_match_investment n1 d r)) r)
     = snd (webhook_match_investment n1 d r)"
proof (cases "objects_get (\<lambda>i. i_tx_ref i = r) (investments d)")
  case (Inl e)
  then show ?thesis
    by (cases e) (simp_all add: webhook_match_investment_def)
next
  case (Inr iv)
  show ?thesis
  proof (cases "amount_paid iv < i_total_price iv")
    case False
    with Inr show ?thesis by (simp add: webhook_match_investment_def)
  next
    case True
    show ?thesis
    proof (cases "objects_first (\<lambda>u. u_id u = investor iv) (users d)")
      case None
      with Inr True show ?thesis by (simp add: webhook_match_investment_def)
    next
      case (Some u)
      define iv1 where "iv1 = iv\<lparr>amount_paid := i_total_price iv, remaining_balance := 0,
                                  i_status := ''completed''\<rparr>"
      define d1 where "d1 = snd (webhook_match_investment n1 d r)"
      have inv1: "investments d1 = save_row i_id iv1 (investments d)"
        using Inr True Some by (simp add: d1_def iv1_def webhook_match_investment_def Let_def)
      have "snd (webhook_match_investment n2 d1 r) = d1"
      proof (cases "objects_get (\<lambda>i. i_tx_ref i = r) (investments d1)")
        case (Inl e)
        then show ?thesis by (cases e) (simp_all add: webhook_match_investment_def)
      next
        case (Inr y)
        have "y = iv1"
          using objects_get_save_row [OF \<open>objects_get _ (investments d) = Inr iv\<close>, of i_id iv1 y]
            Inr inv1 by (simp add: iv1_def)
        then have "\<not> amount_paid y < i_total_price y" by (simp add: iv1_def)
        with Inr show ?thesis by (simp add: webhook_match_investment_def)
      qed
      then show ?thesis by (simp add: d1_def)
    qed
  qed
qed

lemma webhook_match_investment_no_match:
  "\<not> list_ex (\<lambda>i. i_tx_ref i = r) (investments d) \<Longrightarrow>
   snd (webhook_match_investment now d r) = d"
proof -
  assume "\<not> list_ex (\<lambda>i. i_tx_ref i = r) (investments d)"
  then have "filter (\<lambda>i. i_tx_ref i = r) (investments d) = []"
    by (simp add: list_ex_iff filter_empty_conv)
  then show ?thesis by (simp add: webhook_match_investment_def objects_get_def)
qed

text \<open>
  References written by the views stay as written through every view that writes a
  booking or an investment, and such references are never shared between the two tables.
\<close>

lemma list_all_save_row:
  "list_all P xs \<Longrightarrow> P x \<Longrightarrow> list_all P (save_row key x xs)"
  by (auto simp: save_row_def list_all_iff)

lemma refs_by_construction_disjoint:
  assumes "refs_by_construction d"
  shows "tx_refs_disjoint d"
  unfolding tx_refs_disjoint_def list_all_iff
proof (intro ballI notI)
  fix b i
  assume b: "b \<in> set (bookings d)" and i: "i \<in> set (investments d)"
    and eq: "i_tx_ref i = b_tx_ref b"
  from assms b obtain r where r: "b_tx_ref b = Some r" "take 7 r = ''TobiTx-''"
    by (auto simp: refs_by_construction_def list_all_iff split: option.splits)
  from assms i eq r have "take 11 r = ''TobiInvest-''"
    by (auto simp: refs_by_construction_def list_all_iff split: option.splits)
  then have "take 7 (take 11 r) = take 7 ''TobiInvest-''" by simp
  with r show False by simp
qed

lemma refs_empty:
  "refs_by_construction \<lparr>users = us, properties = ps, bookings = [], commissions = [],
     gifts = gs, investments = [], refund_logs = rs\<rparr>"
  by (simp add: refs_by_construction_def)

lemma refs_create_booking:
  "refs_by_construction d \<Longrightarrow>
   refs_by_construction (snd (BookingCreateView_perform_create uuid4 d user vd))"
  by (simp add: refs_by_construction_def BookingCreateView_perform_create.simps
        Booking_insert_def Let_def)

lemma refs_create_investment:
  "refs_by_construction d \<Longrightarrow>
   refs_by_construction (snd (CreateInvestmentView_perform_create uuid4 now d user property plan))"
  by (simp add: refs_by_construction_def CreateInvestmentView_perform_create.simps
        save_user_then_investment_def Investment_insert_def Let_def
      split: option.splits sum.splits)

lemma refs_top_up:
  assumes r: "refs_by_construction d"
  shows "refs_by_construction (snd (TopUpInvestmentView_post now d user investment_id amount))"
proof (cases "objects_get (\<lambda>i. i_id i = investment_id \<and> investor i = u_id user) (investments d)")
  case (Inl e)
  with r show ?thesis by (cases e) (simp_all add: TopUpInvestmentView_post.simps)
next
  case (Inr iv)
  then have "iv \<in> set (investments d)" using objects_get_mem [OF Inr] by simp
  with r have "case i_tx_ref iv of None \<Rightarrow> False | Some r \<Rightarrow> take 11 r = ''TobiInvest-''"
    by (simp add: refs_by_construction_def list_all_iff)
  with r Inr show ?thesis
    by (simp add: TopUpInvestmentView_post.simps refs_by_construction_def Let_def
          Investment_save_def list_all_save_row split: sum.splits)
qed

lemma refs_mark_paid:
  assumes r: "refs_by_construction d"
  shows "refs_by_construction (snd (MarkBookingAsPaidView_post d booking_id))"
proof (cases "objects_get (\<lambda>b. b_id b = booking_id) (bookings d)")
  case (Inl e)
  with r show ?thesis by (cases e) (simp_all add: MarkBookingAsPaidView_post.simps)
next
  case (Inr b)
  then have "b \<in> set (bookings d)" using objects_get_mem [OF Inr] by simp
  with r have "case b_tx_ref b of None \<Rightarrow> False | Some r \<Rightarrow> take 7 r = ''TobiTx-''"
    by (simp add: refs_by_construction_def list_all_iff)
  with r Inr show ?thesis
    by (simp add: MarkBookingAsPaidView_post.simps refs_by_construction_def Let_def
          Commission_insert_def list_all_save_row split: option.splits sum.splits)
qed

lemma refs_match_investment:
  assumes r: "refs_by_construction d"
  shows "refs_by_construction (snd (webhook_match_investment now d tx_ref))"
proof (cases "objects_get (\<lambda>i. i_tx_ref i = tx_ref) (investments d)")
  case (Inl e)
  with r show ?thesis by (cases e) (simp_all add: webhook_match_investment_def)
next
  case (Inr iv)
  then have "iv \<in> set (investments d)" using objects_get_mem [OF Inr] by simp
  with r have "case i_tx_ref iv of None \<Rightarrow> False | Some r \<Rightarrow> take 11 r = ''TobiInvest-''"
    by (simp add: refs_by_construction_def list_all_iff)
  with r Inr show ?thesis
    by (simp add: webhook_match_investment_def refs_by_construction_def Let_def
          list_all_save_row split: option.splits)
qed

lemma refs_webhook:
  assumes r: "refs_by_construction d"
  shows "refs_by_construction (snd (FlutterwaveWebhookView_post now d data))"
proof (cases "objects_get (\<lambda>b. b_tx_ref b = data_tx_ref data) (bookings d)")
  case (Inl e)
  with r refs_match_investment [OF r] show ?thesis
    by (cases e) (simp_all add: FlutterwaveWebhookView_post.simps Let_def)
next
  case (Inr b)
  then have "b \<in> set (bookings d)" using objects_get_mem [OF Inr] by simp
  with r have "case b_tx_ref b of None \<Rightarrow> False | Some r \<Rightarrow> take 7 r = ''TobiTx-''"
    by (simp add: refs_by_construction_def list_all_iff)
  with r Inr refs_match_investment [OF r] show ?thesis
    by (simp add: FlutterwaveWebhookView_post.simps refs_by_construction_def Let_def
          list_all_save_row)
qed

text \<open>
  Claim C5. In a database where no booking and investment share a transaction reference,
  the webhook delivered a second time with the same data, at whatever time, leaves the
  whole database (bookings, investments, user accounts and the rest) as the first
  delivery left it.
\<close>

theorem webhook_idempotent:
  assumes dj: "tx_refs_disjoint d"
  shows "snd (FlutterwaveWebhookView_post n2 (snd (FlutterwaveWebhookView_post n1 d data)) data)
           = snd (FlutterwaveWebhookView_post n1 d data)"
proof (cases "event data = Some ''charge.completed'' \<and> data_status data = Some ''successful''")
  case False
  then show ?thesis
    by (auto simp: FlutterwaveWebhookView_post.simps Let_def)
next
  case True
  define r where "r = data_tx_ref data"
  define d1 where "d1 = snd (FlutterwaveWebhookView_post n1 d data)"
  note W = FlutterwaveWebhookView_post.simps Let_def
  have via_inv: "snd (FlutterwaveWebhookView_post n2 d1 data) = d1"
    if f: "d1 = snd (webhook_match_investment n1 d r)"
      and s: "\<And>d'. bookings d' = bookings d \<Longrightarrow>
                snd (FlutterwaveWebhookView_post n2 d' data) = snd (webhook_match_investment n2 d' r)"
  proof -
    have "bookings d1 = bookings d" by (simp add: f webhook_match_investment_bookings)
    then have "snd (FlutterwaveWebhookView_post n2 d1 data) = snd (webhook_match_investment n2 d1 r)"
      by (rule s)
    then show ?thesis by (simp add: f webhook_match_investment_idem)
  qed
  have "snd (FlutterwaveWebhookView_post n2 d1 data) = d1"
  proof (cases "objects_get (\<lambda>b. b_tx_ref b = r) (bookings d)")
    case (Inl e)
    show ?thesis
    proof (cases "e = DoesNotExist")
      case True
      show ?thesis
      proof (rule via_inv)
        show "d1 = snd (webhook_match_investment n1 d r)"
          using True \<open>_ = Inl e\<close> \<open>event data = _ \<and> _\<close> by (simp add: d1_def W r_def)
        show "snd (FlutterwaveWebhookView_post n2 d' data) = snd (webhook_match_investment n2 d' r)"
          if "bookings d' = bookings d" for d'
          using that True \<open>_ = Inl e\<close> \<open>event data = _ \<and> _\<close> by (simp add: W r_def)
      qed
    next
      case False
      then have "d1 = d"
        using Inl True by (cases e) (simp_all add: d1_def W r_def)
      moreover have "snd (FlutterwaveWebhookView_post n2 d data) = d"
        using False Inl True by (cases e) (simp_all add: W r_def)
      ultimately show ?thesis by simp
    qed
  next
    case (Inr b)
    show ?thesis
    proof (cases "is_paid b")
      case paid: True
      show ?thesis
      proof (rule via_inv)
        show "d1 = snd (webhook_match_investment n1 d r)"
          using paid Inr True by (simp add: d1_def W r_def)
        show "snd (FlutterwaveWebhookView_post n2 d' data) = snd (webhook_match_investment n2 d' r)"
          if "bookings d' = bookings d" for d'
          using that paid Inr True by (simp add: W r_def)
      qed
    next
      case unpaid: False
      define b1 where "b1 = b\<lparr>is_paid := True\<rparr>"
      have d1: "d1 = d\<lparr>bookings := save_row b_id b1 (bookings d)\<rparr>"
        using unpaid Inr True by (simp add: d1_def W r_def b1_def)
      have bmem: "b \<in> set (bookings d)" "b_tx_ref b = r"
        using objects_get_mem [OF Inr] by simp_all
      with dj have "\<not> list_ex (\<lambda>i. i_tx_ref i = r) (investments d)"
        by (auto simp: tx_refs_disjoint_def list_all_iff list_ex_iff)
      then have nomatch: "snd (webhook_match_investment n2 d1 r) = d1"
        using webhook_match_investment_no_match [of r d1 n2] by (simp add: d1)
      show ?thesis
      proof (cases "objects_get (\<lambda>b. b_tx_ref b = r) (bookings d1)")
        case (Inl e)
        then show ?thesis
          using True nomatch by (cases e) (simp_all add: W r_def)
      next
        case (Inr y)
        have "y = b1"
          using objects_get_save_row [OF \<open>objects_get _ (bookings d) = Inr b\<close>, of b_id b1 y]
            Inr d1 by (simp add: b1_def)
        then have "is_paid y" by (simp add: b1_def)
        with Inr True nomatch show ?thesis by (simp add: W r_def)
      qed
    qed
  qed
  then show ?thesis by (simp add: d1_def)
qed

theorem webhook_idempotent_witness:
  "tx_refs_disjoint ex_db_both
   \<and> snd (FlutterwaveWebhookView_post 2000
            (snd (FlutterwaveWebhookView_post 1000 ex_db_both (ex_hook ''TobiInvest-9c'')))
            (ex_hook ''TobiInvest-9c''))
     = snd (FlutterwaveWebhookView_post 1000 ex_db_both (ex_hook ''TobiInvest-9c''))
   \<and> investments (snd (FlutterwaveWebhookView_post 1000 ex_db_both (ex_hook ''TobiInvest-9c'')))
     = [ex_installment\<lparr>amount_paid := 1000000, remaining_balance := 0,
                        i_status := ''completed''\<rparr>]"
proof -
  have dj: "tx_refs_disjoint ex_db_both"
    by (simp add: tx_refs_disjoint_def ex_defs)
  have "investments (snd (FlutterwaveWebhookView_post 1000 ex_db_both (ex_hook ''TobiInvest-9c'')))
     = [ex_installment\<lparr>amount_paid := 1000000, remaining_balance := 0,
                        i_status := ''completed''\<rparr>]"
    by (simp add: FlutterwaveWebhookView_post.simps webhook_match_investment_def ex_defs orm_defs)
  with dj webhook_idempotent [OF dj, of 2000 1000 "ex_hook ''TobiInvest-9c''"]
  show ?thesis by simp
qed

section \<open>What the views write to the bookings\<close>

lemma validated_data:
  assumes "BookingSerializer_is_valid d rq = Inr vd"
  shows "p_id (vd_property vd) = rq_property rq \<and> vd_property vd \<in> set (properties d)
         \<and> vd_start_date vd = rq_start_date rq \<and> vd_end_date vd = rq_end_date rq
         \<and> vd_is_cancelled vd = rq_is_cancelled rq
         \<and> \<not> list_ex (\<lambda>b. b_property b = rq_property rq \<and> start_date b = rq_start_date rq
                          \<and> end_date b = rq_end_date rq) (bookings d)"
proof (cases "objects_get (\<lambda>p. p_id p = rq_property rq) (properties d)")
  case (Inl e)
  with assms show ?thesis
    by (cases e) (simp_all add: BookingSerializer_is_valid_def)
next
  case (Inr p)
  from objects_get_mem [OF Inr] have "p \<in> set (properties d)" "p_id p = rq_property rq"
    by simp_all
  with assms Inr show ?thesis
    by (auto simp: BookingSerializer_is_valid_def split: if_splits)
qed

lemma post_validated:
  "BookingSerializer_is_valid d rq = Inr vd \<Longrightarrow>
   BookingCreateView_post uuid4 d user rq = BookingCreateView_perform_create uuid4 d user vd"
  by (simp add: BookingCreateView_post_def)

text \<open>A post changes nothing or is \<^verbatim>\<open>perform_create\<close> on the data it validated.\<close>

lemma post_is_create:
  "snd (BookingCreateView_post uuid4 d user rq) = d \<or>
   (\<exists>vd. snd (BookingCreateView_post uuid4 d user rq)
           = handle_request d (CreateBooking uuid4 user vd))"
  by (cases "BookingSerializer_is_valid d rq") (auto simp: BookingCreateView_post_def)

lemma create_bookings_cases:
  "bookings (snd (BookingCreateView_perform_create uuid4 d user vd)) = bookings d \<or>
   (\<exists>b. fst (BookingCreateView_perform_create uuid4 d user vd) = Inr b \<and>
        bookings (snd (BookingCreateView_perform_create uuid4 d user vd)) = bookings d @ [b] \<and>
        is_paid b \<and> b_id b = next_id (map b_id (bookings d)) \<and>
        b_property b = p_id (vd_property vd) \<and> start_date b = vd_start_date vd \<and>
        end_date b = vd_end_date vd \<and>
        \<not> list_ex (\<lambda>b. b_property b = p_id (vd_property vd) \<and> \<not> is_cancelled b
                       \<and> start_date b < vd_end_date vd \<and> end_date b > vd_start_date vd)
            (bookings d))"
  by (simp add: BookingCreateView_perform_create.simps Booking_insert_def Let_def)

lemma create_commissions:
  "commissions (snd (BookingCreateView_perform_create uuid4 d user vd)) = commissions d"
  by (simp add: BookingCreateView_perform_create.simps Booking_insert_def Let_def)

lemma mark_paid_bookings:
  "bookings (snd (MarkBookingAsPaidView_post d booking_id)) = bookings d \<or>
   (\<exists>b\<in>set (bookings d). \<not> is_paid b \<and>
      bookings (snd (MarkBookingAsPaidView_post d booking_id))
        = save_row b_id (b\<lparr>is_paid := True\<rparr>) (bookings d))"
proof (cases "objects_get (\<lambda>b. b_id b = booking_id) (bookings d)")
  case (Inl e)
  then show ?thesis by (cases e) (simp_all add: MarkBookingAsPaidView_post.simps)
next
  case (Inr b)
  from objects_get_mem [OF Inr] have "b \<in> set (bookings d)" by simp
  with Inr show ?thesis
    by (auto simp: MarkBookingAsPaidView_post.simps Let_def Commission_insert_def
             split: option.splits sum.splits)
qed

lemma webhook_bookings:
  "bookings (snd (FlutterwaveWebhookView_post now d data)) = bookings d \<or>
   (\<exists>b\<in>set (bookings d). \<not> is_paid b \<and>
      bookings (snd (FlutterwaveWebhookView_post now d data))
        = save_row b_id (b\<lparr>is_paid := True\<rparr>) (bookings d))"
proof (cases "objects_get (\<lambda>b. b_tx_ref b = data_tx_ref data) (bookings d)")
  case (Inl e)
  then show ?thesis
    by (cases e)
      (simp_all add: FlutterwaveWebhookView_post.simps Let_def webhook_match_investment_bookings)
next
  case (Inr b)
  from objects_get_mem [OF Inr] have "b \<in> set (bookings d)" by simp
  with Inr show ?thesis
    by (auto simp: FlutterwaveWebhookView_post.simps Let_def webhook_match_investment_bookings)
qed

lemma webhook_commissions:
  "commissions (snd (FlutterwaveWebhookView_post now d data)) = commissions d"
  by (cases "objects_get (\<lambda>b. b_tx_ref b = data_tx_ref data) (bookings d)")
    (auto simp: FlutterwaveWebhookView_post.simps Let_def webhook_match_investment_commissions
          split: exn.splits)

lemma cancel_bookings:
  "bookings (snd (CancelBookingView_post today d user booking_id)) = bookings d \<or>
   (\<exists>b\<in>set (bookings d).
      bookings (snd (CancelBookingView_post today d user booking_id))
        = save_row b_id (b\<lparr>is_cancelled := True\<rparr>) (bookings d))"
proof (cases "objects_get (\<lambda>b. b_id b = booking_id \<and> b_user b = u_id user) (bookings d)")
  case (Inl e)
  then show ?thesis by (cases e) (simp_all add: CancelBookingView_post.simps)
next
  case (Inr b)
  from objects_get_mem [OF Inr] have "b \<in> set (bookings d)" by simp
  with Inr show ?thesis
    by (auto simp: CancelBookingView_post.simps Let_def RefundLog_create_def
             split: option.splits)
qed

lemma cancel_commissions:
  "commissions (snd (CancelBookingView_post today d user booking_id)) = commissions d"
  by (cases "objects_get (\<lambda>b. b_id b = booking_id \<and> b_user b = u_id user) (bookings d)")
    (auto simp: CancelBookingView_post.simps Let_def RefundLog_create_def
          split: option.splits exn.splits)

lemma admin_cancel_bookings:
  "bookings (snd (AdminCancelBookingView_post d booking_id)) = bookings d \<or>
   (\<exists>b\<in>set (bookings d).
      bookings (snd (AdminCancelBookingView_post d booking_id))
        = save_row b_id (b\<lparr>is_cancelled := True\<rparr>) (bookings d))"
proof (cases "objects_get (\<lambda>b. b_id b = booking_id) (bookings d)")
  case (Inl e)
  then show ?thesis by (cases e) (simp_all add: AdminCancelBookingView_post.simps)
next
  case (Inr b)
  from objects_get_mem [OF Inr] have "b \<in> set (bookings d)" by simp
  with Inr show ?thesis
    by (auto simp: AdminCancelBookingView_post.simps Let_def RefundLog_create_def
             split: option.splits sum.splits)
qed

lemma admin_cancel_commissions:
  "commissions (snd (AdminCancelBookingView_post d booking_id)) = commissions d"
  by (cases "objects_get (\<lambda>b. b_id b = booking_id) (bookings d)")
    (auto simp: AdminCancelBookingView_post.simps Let_def RefundLog_create_def
          split: option.splits sum.splits exn.splits)

section \<open>Date conflicts of bookings\<close>

text \<open>
  Saving a stored booking again with the same listing and dates, and cancelled if it
  was, keeps the active bookings apart.
\<close>

lemma no_double_booking_save:
  assumes inv: "no_double_booking bs"
      and b: "b \<in> set bs"
      and same: "b_id b' = b_id b" "b_property b' = b_property b"
        "start_date b' = start_date b" "end_date b' = end_date b"
      and c: "is_cancelled b \<Longrightarrow> is_cancelled b'"
  shows "no_double_booking (save_row b_id b' bs)"
  unfolding no_double_booking_def list_all_iff
proof (intro ballI)
  fix x y
  assume "x \<in> set (save_row b_id b' bs)" "y \<in> set (save_row b_id b' bs)"
  then have x: "x = b' \<or> (x \<in> set bs \<and> b_id x \<noteq> b_id b')"
    and y: "y = b' \<or> (y \<in> set bs \<and> b_id y \<noteq> b_id b')"
    using set_save_row [of x b_id b' bs] set_save_row [of y b_id b' bs] by blast+
  from inv have old: "\<And>u v. u \<in> set bs \<Longrightarrow> v \<in> set bs \<Longrightarrow>
      b_id u = b_id v \<or> b_property u \<noteq> b_property v \<or> is_cancelled u \<or> is_cancelled v
      \<or> \<not> (start_date u < end_date v \<and> end_date u > start_date v)"
    by (auto simp: no_double_booking_def list_all_iff)
  from x y consider "x = b'" "y = b'"
    | "x = b'" "y \<in> set bs" "b_id y \<noteq> b_id b'"
    | "x \<in> set bs" "b_id x \<noteq> b_id b'" "y = b'"
    | "x \<in> set bs" "y \<in> set bs"
    by blast
  then show "b_id x = b_id y \<or> b_property x \<noteq> b_property y \<or> is_cancelled x \<or> is_cancelled y
      \<or> \<not> (start_date x < end_date y \<and> end_date x > start_date y)"
  proof cases
    case 1
    then show ?thesis by simp
  next
    case 2
    with old [OF b, of y] same c show ?thesis by auto
  next
    case 3
    with old [OF _ b, of x] same c show ?thesis by auto
  next
    case 4
    with old show ?thesis by blast
  qed
qed

lemma no_double_booking_paid:
  "no_double_booking bs \<Longrightarrow> b \<in> set bs \<Longrightarrow>
   no_double_booking (save_row b_id (b\<lparr>is_paid := True\<rparr>) bs)"
  by (rule no_double_booking_save) simp_all

lemma no_double_booking_cancelled:
  "no_double_booking bs \<Longrightarrow> b \<in> set bs \<Longrightarrow>
   no_double_booking (save_row b_id (b\<lparr>is_cancelled := True\<rparr>) bs)"
  by (rule no_double_booking_save) simp_all

lemma no_double_booking_create:
  assumes inv: "no_double_booking (bookings d)"
  shows "no_double_booking (bookings (snd (BookingCreateView_perform_create uuid4 d user vd)))"
  using create_bookings_cases [of uuid4 d user vd]
proof
  assume "bookings (snd (BookingCreateView_perform_create uuid4 d user vd)) = bookings d"
  with inv show ?thesis by simp
next
  assume "\<exists>b. fst (BookingCreateView_perform_create uuid4 d user vd) = Inr b \<and>
      bookings (snd (BookingCreateView_perform_create uuid4 d user vd)) = bookings d @ [b] \<and>
      is_paid b \<and> b_id b = next_id (map b_id (bookings d)) \<and>
      b_property b = p_id (vd_property vd) \<and> start_date b = vd_start_date vd \<and>
      end_date b = vd_end_date vd \<and>
      \<not> list_ex (\<lambda>b. b_property b = p_id (vd_property vd) \<and> \<not> is_cancelled b
                     \<and> start_date b < vd_end_date vd \<and> end_date b > vd_start_date vd)
          (bookings d)"
  then obtain b where b:
    "bookings (snd (BookingCreateView_perform_create uuid4 d user vd)) = bookings d @ [b]"
    "b_property b = p_id (vd_property vd)" "start_date b = vd_start_date vd"
    "end_date b = vd_end_date vd"
    "\<not> list_ex (\<lambda>b. b_property b = p_id (vd_property vd) \<and> \<not> is_cancelled b
                     \<and> start_date b < vd_end_date vd \<and> end_date b > vd_start_date vd)
          (bookings d)"
    by blast
  from b(5) have free: "\<forall>a\<in>set (bookings d).
      b_property a \<noteq> b_property b \<or> is_cancelled a
      \<or> \<not> (start_date a < end_date b \<and> end_date a > start_date b)"
    by (auto simp: list_ex_iff b(2,3,4))
  from inv have old: "\<forall>a\<in>set (bookings d). \<forall>c\<in>set (bookings d).
       b_id a = b_id c \<or> b_property a \<noteq> b_property c \<or> is_cancelled a \<or> is_cancelled c
       \<or> \<not> (start_date a < end_date c \<and> end_date a > start_date c)"
    by (simp add: no_double_booking_def list_all_iff)
  show ?thesis
    unfolding b(1) no_double_booking_def list_all_iff
  proof (intro ballI)
    fix a c
    assume "a \<in> set (bookings d @ [b])" "c \<in> set (bookings d @ [b])"
    then consider "a \<in> set (bookings d)" "c \<in> set (bookings d)"
      | "a \<in> set (bookings d)" "c = b" | "a = b" "c \<in> set (bookings d)" | "a = b" "c = b"
      by auto
    then show "b_id a = b_id c \<or> b_property a \<noteq> b_property c \<or> is_cancelled a \<or> is_cancelled c
       \<or> \<not> (start_date a < end_date c \<and> end_date a > start_date c)"
    proof cases
      case 1
      with old show ?thesis by blast
    next
      case 2
      with free show ?thesis by blast
    next
      case 3
      with free [rule_format, of c] show ?thesis by auto
    next
      case 4
      then show ?thesis by simp
    qed
  qed
qed

lemma no_double_booking_handle:
  assumes inv: "no_double_booking (bookings d)"
  shows "no_double_booking (bookings (handle_request d r))"
proof (cases r)
  case (CreateBooking uuid4 user vd)
  with inv show ?thesis by (simp add: no_double_booking_create)
next
  case (MarkBookingAsPaid k)
  with inv mark_paid_bookings [of d k] show ?thesis
    by (auto simp: no_double_booking_paid no_double_booking_cancelled)
next
  case (FlutterwaveWebhook now data)
  with inv webhook_bookings [of now d data] show ?thesis
    by (auto simp: no_double_booking_paid no_double_booking_cancelled)
next
  case (CancelBooking today user k)
  with inv cancel_bookings [of today d user k] show ?thesis
    by (auto simp: no_double_booking_paid no_double_booking_cancelled)
next
  case (AdminCancelBooking k)
  with inv admin_cancel_bookings [of d k] show ?thesis
    by (auto simp: no_double_booking_paid no_double_booking_cancelled)
qed

lemma no_double_booking_run:
  "no_double_booking (bookings d) \<Longrightarrow> no_double_booking (bookings (run_requests d rs))"
  by (induction rs arbitrary: d) (simp_all add: no_double_booking_handle)

text \<open>
  Claim C6, amended. Take a posted request that the serializer lets through (its listing
  is stored and no stored booking has exactly its listing and dates), for a listing that
  is approved and a short-let. The view fails with the date-conflict error exactly when
  some active (not cancelled) booking of the listing overlaps the requested range under
  the half-open test \<^verbatim>\<open>existing.start < range.end and existing.end > range.start\<close>.
  Consequently the active bookings of every listing are pairwise non-overlapping: that
  holds of every database reached, from one where it holds (one without bookings, say),
  by booking creations, mark-paid requests, webhook deliveries and cancellations in any
  number and order. And when every stored booking ends on or before the requested start
  day, there is no date conflict: a booking that ends on day D does not conflict with one
  that starts on day D.
\<close>

theorem createBooking_conflict:
  assumes v: "BookingSerializer_is_valid d rq = Inr vd"
      and ok: "is_approved (vd_property vd)" "property_type (vd_property vd) = ''shortlet''"
  shows
    "(fst (BookingCreateView_post uuid4 d user rq)
        = Inl (ValidationError ''This date range is already booked.'')
      \<longleftrightarrow> list_ex (\<lambda>b. b_property b = rq_property rq \<and> \<not> is_cancelled b
                       \<and> start_date b < rq_end_date rq \<and> end_date b > rq_start_date rq)
            (bookings d))
     \<and> (no_double_booking (bookings d0) \<longrightarrow>
          no_double_booking (bookings (run_requests d0 rs)))
     \<and> (list_all (\<lambda>b. end_date b \<le> rq_start_date rq) (bookings d) \<longrightarrow>
          fst (BookingCreateView_post uuid4 d user rq)
            \<noteq> Inl (ValidationError ''This date range is already booked.''))"
proof (intro conjI impI)
  note vd = validated_data [OF v] and post = post_validated [OF v]
  show "fst (BookingCreateView_post uuid4 d user rq)
        = Inl (ValidationError ''This date range is already booked.'')
      \<longleftrightarrow> list_ex (\<lambda>b. b_property b = rq_property rq \<and> \<not> is_cancelled b
                       \<and> start_date b < rq_end_date rq \<and> end_date b > rq_start_date rq)
            (bookings d)"
    using ok vd
    by (simp add: post BookingCreateView_perform_create.simps Booking_insert_def Let_def)
  show "no_double_booking (bookings (run_requests d0 rs))"
    if "no_double_booking (bookings d0)"
    using that by (rule no_double_booking_run)
  show "fst (BookingCreateView_post uuid4 d user rq)
            \<noteq> Inl (ValidationError ''This date range is already booked.'')"
    if "list_all (\<lambda>b. end_date b \<le> rq_start_date rq) (bookings d)"
  proof -
    from that have "\<not> list_ex (\<lambda>b. b_property b = rq_property rq \<and> \<not> is_cancelled b
                       \<and> start_date b < rq_end_date rq \<and> end_date b > rq_start_date rq)
            (bookings d)"
      by (auto simp: list_all_iff list_ex_iff)
    then show ?thesis
      using ok vd
      by (simp add: post BookingCreateView_perform_create.simps Booking_insert_def Let_def)
  qed
qed

lemma ex_valid_over:
  "BookingSerializer_is_valid ex_db_booked ex_rq_over
     = Inr \<lparr>vd_property = ex_shortlet, vd_start_date = 739404, vd_end_date = 739407,
            vd_is_cancelled = False\<rparr>"
  by (simp add: BookingSerializer_is_valid_def ex_defs orm_defs)

lemma ex_valid_next:
  "BookingSerializer_is_valid ex_db_booked ex_rq_next
     = Inr \<lparr>vd_property = ex_shortlet, vd_start_date = 739406, vd_end_date = 739409,
            vd_is_cancelled = False\<rparr>"
  by (simp add: BookingSerializer_is_valid_def ex_defs orm_defs)

theorem createBooking_conflict_witness:
  "BookingSerializer_is_valid ex_db_booked ex_rq_over
     = Inr \<lparr>vd_property = ex_shortlet, vd_start_date = 739404, vd_end_date = 739407,
            vd_is_cancelled = False\<rparr>
   \<and> fst (BookingCreateView_post ''4d'' ex_db_booked ex_customer ex_rq_over)
       = Inl (ValidationError ''This date range is already booked.'')
   \<and> BookingSerializer_is_valid ex_db_booked ex_rq_next
     = Inr \<lparr>vd_property = ex_shortlet, vd_start_date = 739406, vd_end_date = 739409,
            vd_is_cancelled = False\<rparr>
   \<and> list_all (\<lambda>b. end_date b \<le> rq_start_date ex_rq_next) (bookings ex_db_booked)
   \<and> fst (BookingCreateView_post ''4d'' ex_db_booked ex_customer ex_rq_next)
       \<noteq> Inl (ValidationError ''This date range is already booked.'')
   \<and> no_double_booking (bookings ex_db_installment)
   \<and> no_double_booking (bookings (run_requests ex_db_installment
        [CreateBooking ''7f'' ex_customer ex_stay, MarkBookingAsPaid 1,
         CancelBooking 739400 (ex_customer\<lparr>shortlet_credit := 0\<rparr>) 1,
         CreateBooking ''4d'' ex_gold (ex_stay\<lparr>vd_start_date := 739404, vd_end_date := 739407\<rparr>)]))"
  using createBooking_conflict [OF ex_valid_over, of "''4d''" ex_customer ex_db_installment
      "[CreateBooking ''7f'' ex_customer ex_stay, MarkBookingAsPaid 1,
        CancelBooking 739400 (ex_customer\<lparr>shortlet_credit := 0\<rparr>) 1,
        CreateBooking ''4d'' ex_gold (ex_stay\<lparr>vd_start_date := 739404, vd_end_date := 739407\<rparr>)]"]
    createBooking_conflict [OF ex_valid_next, of "''4d''" ex_customer ex_db "[]"]
    ex_valid_over ex_valid_next
  by (simp add: ex_defs no_double_booking_def)

text \<open>
  The claim as stated has no condition on the listing or on the request. The listing
  check comes first: on a listing that lost its approval, a request for a night inside a
  stored active booking fails as unavailable, not as a date conflict. And the serializer
  comes before the view: a request for exactly the listing and dates of a stored active
  booking fails with the serializer's unique-set error, not with the view's date-conflict
  error.
\<close>

theorem createBooking_conflict_counterexample:
  "list_ex (\<lambda>b. b_property b = rq_property ex_rq_inside \<and> \<not> is_cancelled b
                \<and> start_date b < rq_end_date ex_rq_inside
                \<and> end_date b > rq_start_date ex_rq_inside)
      (bookings ex_db_edited)
   \<and> BookingCreateView_post ''4d'' ex_db_edited ex_customer ex_rq_inside
       = (Inl (ValidationError ''Property not available for short-let booking.''), ex_db_edited)
   \<and> list_ex (\<lambda>b. b_property b = rq_property ex_rq_stay \<and> \<not> is_cancelled b
                \<and> start_date b < rq_end_date ex_rq_stay
                \<and> end_date b > rq_start_date ex_rq_stay)
      (bookings ex_db_booked)
   \<and> BookingCreateView_post ''4d'' ex_db_booked ex_customer ex_rq_stay
       = (Inl (ValidationError
            ''The fields property, start_date, end_date must make a unique set.''),
          ex_db_booked)"
  by (simp add: BookingCreateView_post_def BookingSerializer_is_valid_def
        BookingCreateView_perform_create.simps ex_defs orm_defs)

section \<open>Paying for a booking with credit\<close>





section \<open>Bookings paid with credit earn no commission\<close>

lemma settled_create:
  "settled k cs d \<Longrightarrow> settled k cs (snd (BookingCreateView_perform_create uuid4 d user vd))"
  by (simp add: settled_def BookingCreateView_perform_create.simps Booking_insert_def Let_def)

lemma settled_save_paid:
  assumes s: "settled k cs d"
  shows "list_all (\<lambda>x. b_id x \<noteq> k \<or> is_paid x)
           (save_row b_id (b\<lparr>is_paid := True\<rparr>) (bookings d))"
  unfolding list_all_iff
proof
  fix x assume "x \<in> set (save_row b_id (b\<lparr>is_paid := True\<rparr>) (bookings d))"
  then have "x = b\<lparr>is_paid := True\<rparr> \<or> x \<in> set (bookings d)"
    using set_save_row [of x b_id "b\<lparr>is_paid := True\<rparr>" "bookings d"] by auto
  with s show "b_id x \<noteq> k \<or> is_paid x" by (auto simp: settled_def list_all_iff)
qed

lemma settled_save_cancelled:
  assumes s: "settled k cs d" and b: "b \<in> set (bookings d)"
  shows "list_all (\<lambda>x. b_id x \<noteq> k \<or> is_paid x)
           (save_row b_id (b\<lparr>is_cancelled := True\<rparr>) (bookings d))"
proof (rule list_all_save_row)
  from s show "list_all (\<lambda>x. b_id x \<noteq> k \<or> is_paid x) (bookings d)"
    by (simp add: settled_def)
  from s b show "b_id (b\<lparr>is_cancelled := True\<rparr>) \<noteq> k \<or> is_paid (b\<lparr>is_cancelled := True\<rparr>)"
    by (auto simp: settled_def list_all_iff)
qed

lemma settled_paid:
  assumes s: "settled k cs d"
  shows "settled k cs (snd (MarkBookingAsPaidView_post d booking_id))"
proof (cases "objects_get (\<lambda>b. b_id b = booking_id) (bookings d)")
  case (Inl e)
  with s show ?thesis by (cases e) (simp_all add: MarkBookingAsPaidView_post.simps)
next
  case (Inr b)
  show ?thesis
  proof (cases "is_paid b")
    case True
    with Inr s show ?thesis by (simp add: MarkBookingAsPaidView_post.simps)
  next
    case False
    have mem: "b \<in> set (bookings d)" using objects_get_mem [OF Inr] by simp
    with s False have ne: "b_id b \<noteq> k" by (auto simp: settled_def list_all_iff)
    from s have cs: "filter (\<lambda>c. c_booking c = k) (commissions d) = cs"
      by (simp add: settled_def)
    show ?thesis
      using Inr False settled_save_paid [OF s, of b] cs ne
      by (simp add: MarkBookingAsPaidView_post.simps Let_def settled_def Commission_insert_def
            split: option.splits sum.splits)
  qed
qed

lemma settled_webhook:
  assumes s: "settled k cs d"
  shows "settled k cs (snd (FlutterwaveWebhookView_post now d data))"
  using s webhook_bookings [of now d data] settled_save_paid [OF s]
  by (auto simp: settled_def webhook_commissions)

lemma settled_cancel:
  assumes s: "settled k cs d"
  shows "settled k cs (snd (CancelBookingView_post today d user booking_id))"
  using s cancel_bookings [of today d user booking_id] settled_save_cancelled [OF s]
  by (auto simp: settled_def cancel_commissions)

lemma settled_admin_cancel:
  assumes s: "settled k cs d"
  shows "settled k cs (snd (AdminCancelBookingView_post d booking_id))"
  using s admin_cancel_bookings [of d booking_id] settled_save_cancelled [OF s]
  by (auto simp: settled_def admin_cancel_commissions)

lemma settled_run:
  "settled k cs d \<Longrightarrow> settled k cs (run_requests d rs)"
proof (induction rs arbitrary: d)
  case Nil
  then show ?case by simp
next
  case (Cons r rs)
  from Cons.prems have "settled k cs (handle_request d r)"
    by (cases r)
      (simp_all add: settled_create settled_paid settled_webhook settled_cancel
         settled_admin_cancel)
  then show ?case by (simp add: Cons.IH)
qed

lemma ex_create_stay:
  "BookingCreateView_perform_create ''7f'' ex_db ex_customer ex_stay
     = (Inr (ex_unpaid\<lparr>is_paid := True\<rparr>), ex_db_after_stay)"
  by (simp add: BookingCreateView_perform_create.simps ex_db_after_stay_def ex_defs orm_defs)

text \<open>
  Claim C10. A booking \<open>b\<close> that \<^verbatim>\<open>perform_create\<close> inserted is paid from the start.
  After any list of further booking creations, mark-paid requests, webhook deliveries and
  cancellations, every row of that booking is still paid and the commissions of that booking are the ones
  the database held before the booking existed: none was created for it.
\<close>

theorem credit_booking_earns_no_commission:
  assumes c: "BookingCreateView_perform_create uuid4 d0 user vd = (Inr b, d1)"
  shows "is_paid b \<and> b \<in> set (bookings d1) \<and>
         list_all (\<lambda>x. b_id x \<noteq> b_id b \<or> is_paid x) (bookings (run_requests d1 rs)) \<and>
         filter (\<lambda>c. c_booking c = b_id b) (commissions (run_requests d1 rs))
           = filter (\<lambda>c. c_booking c = b_id b) (commissions d0)"
proof -
  from c have b: "is_paid b" "bookings d1 = bookings d0 @ [b]"
      "b_id b = next_id (map b_id (bookings d0))" "commissions d1 = commissions d0"
    by (auto simp: BookingCreateView_perform_create.simps Booking_insert_def Let_def
             split: if_splits)
  have "\<forall>x\<in>set (bookings d0). b_id x \<noteq> b_id b"
    using next_id_fresh [of "map b_id (bookings d0)"] b(3) by (force simp: image_iff)
  with b have "settled (b_id b) (filter (\<lambda>c. c_booking c = b_id b) (commissions d0)) d1"
    by (simp add: settled_def list_all_iff)
  then have "settled (b_id b) (filter (\<lambda>c. c_booking c = b_id b) (commissions d0))
               (run_requests d1 rs)"
    by (rule settled_run)
  with b show ?thesis by (simp add: settled_def)
qed

theorem credit_booking_earns_no_commission_witness:
  "BookingCreateView_perform_create ''7f'' ex_db ex_customer ex_stay
     = (Inr (ex_unpaid\<lparr>is_paid := True\<rparr>), ex_db_after_stay)
   \<and> list_all (\<lambda>x. b_id x \<noteq> 1 \<or> is_paid x)
       (bookings (run_requests ex_db_after_stay
          [MarkBookingAsPaid 1, FlutterwaveWebhook 5000 (ex_hook ''TobiTx-7f'')]))
   \<and> filter (\<lambda>c. c_booking c = 1)
       (commissions (run_requests ex_db_after_stay
          [MarkBookingAsPaid 1, FlutterwaveWebhook 5000 (ex_hook ''TobiTx-7f'')])) = []"
  using credit_booking_earns_no_commission [OF ex_create_stay,
      of "[MarkBookingAsPaid 1, FlutterwaveWebhook 5000 (ex_hook ''TobiTx-7f'')]"]
    ex_create_stay
  by (simp add: ex_defs)

section \<open>Where the code departs from the specification\<close>

text \<open>
  Claim C1. The database holds one unpaid booking of total 30,000. The webhook for its
  reference marks it paid and returns; no commission is created. The mark-paid view on
  the same database marks it paid and creates the commission of 3,000 for the agent.
\<close>

theorem webhook_marks_paid_without_commission:
  "FlutterwaveWebhookView_post 0 ex_db_unpaid (ex_hook ''TobiTx-7f'')
     = (Inr (Response 200 ''Booking marked as paid''),
        ex_db_unpaid\<lparr>bookings := [ex_unpaid\<lparr>is_paid := True\<rparr>]\<rparr>)
   \<and> commissions (snd (FlutterwaveWebhookView_post 0 ex_db_unpaid (ex_hook ''TobiTx-7f''))) = []
   \<and> MarkBookingAsPaidView_post ex_db_unpaid 1
     = (Inr (Response 200 ''Booking marked as paid''),
        ex_db_unpaid\<lparr>bookings := [ex_unpaid\<lparr>is_paid := True\<rparr>],
          commissions := [\<lparr>c_id = 1, c_agent = 1, c_booking = 1, c_amount = 3000,
                           withdrawal_requested = False, is_withdrawn = False\<rparr>]\<rparr>)"
  by (simp add: FlutterwaveWebhookView_post.simps MarkBookingAsPaidView_post.simps
        ex_defs orm_defs)

text \<open>
  Claim C2. One pending short-let gift, never reassigned, expired a day ago. The expiry
  view saves the gift as expired and then raises \<^verbatim>\<open>AttributeError\<close>: the sender's credit
  is unchanged and \<^verbatim>\<open>converted_to_credit\<close> is still false. A second run selects nothing.
\<close>

theorem expire_gifts_raises_before_credit:
  "ExpireOldGiftsView_post 691200 ex_db_gift
     = (Inl AttributeError, ex_db_gift\<lparr>gifts := [ex_gift\<lparr>g_status := ''expired''\<rparr>]\<rparr>)
   \<and> ExpireOldGiftsView_post 691200 (snd (ExpireOldGiftsView_post 691200 ex_db_gift))
     = (Inr (0, 0), ex_db_gift\<lparr>gifts := [ex_gift\<lparr>g_status := ''expired''\<rparr>]\<rparr>)"
  by (simp add: ExpireOldGiftsView_post_def ex_defs orm_defs)

text \<open>
  Claim C3. An investor pays for the estate of cost price 1,000,000 in full. The
  investment is stored with \<^verbatim>\<open>amount_paid\<close> 1,000,000 and \<^verbatim>\<open>remaining_balance\<close> 0, the
  investor is Platinum for 365 days, and the status of the investment is \<^verbatim>\<open>'active'\<close>.
\<close>

theorem full_plan_investment_stays_active:
  "CreateInvestmentView_perform_create ''9c'' 0 ex_db ex_investor ex_estate ''full''
     = (Inr \<lparr>i_id = 1, investor = 3, i_property = 2, payment_plan = ''full'',
             i_total_price = 1000000, amount_paid = 1000000, remaining_balance = 0,
             i_status = ''active'', i_tx_ref = Some ''TobiInvest-9c''\<rparr>,
        ex_db\<lparr>users := [ex_agent, ex_customer,
                 ex_investor\<lparr>membership_tier := Some ''Platinum'',
                             membership_expires_at := Some 31536000\<rparr>],
              investments := [\<lparr>i_id = 1, investor = 3, i_property = 2, payment_plan = ''full'',
                 i_total_price = 1000000, amount_paid = 1000000, remaining_balance = 0,
                 i_status = ''active'', i_tx_ref = Some ''TobiInvest-9c''\<rparr>]\<rparr>)"
  by (simp add: CreateInvestmentView_perform_create.simps save_user_then_investment_def
        ex_defs orm_defs)

text \<open>
  Claim C4. The investor invests by installments (Gold, credit 5,000,000), then tops up
  the remaining 400,000 (Platinum, credit 0), then posts the same investment again. The
  insert is refused by the uniqueness constraint, after \<^verbatim>\<open>user.save()\<close> made the investor
  Gold again with a credit of 5,000,000.
\<close>

theorem duplicate_investment_keeps_user_changes:
  "CreateInvestmentView_perform_create ''9c'' 0 ex_db ex_investor ex_estate ''installment''
     = (Inr ex_installment, ex_db_installment)
   \<and> TopUpInvestmentView_post 1000 ex_db_installment ex_gold 1 400000
     = (Inr (Response 200 ''Top-up successful''), ex_db_completed)
   \<and> CreateInvestmentView_perform_create ''4d'' 5000 ex_db_completed ex_platinum ex_estate
        ''installment''
     = (Inl IntegrityError,
        ex_db_completed\<lparr>users := [ex_agent, ex_customer,
           ex_platinum\<lparr>membership_tier := Some ''Gold'',
                       membership_expires_at := Some 31541000,
                       shortlet_credit := 5000000\<rparr>]\<rparr>)"
  by (simp add: CreateInvestmentView_perform_create.simps save_user_then_investment_def
        TopUpInvestmentView_post.simps ex_defs orm_defs)

text \<open>
  Claim C9. The sender reassigns a pending gift to an address that no account has, and
  then to another such address. Both requests succeed: the first left \<^verbatim>\<open>reassigned_to\<close>
  unset, so the second is not refused.
\<close>

theorem reassign_twice_to_unregistered:
  "ReassignGiftView_post ex_db_gift ex_customer 1 (Some ''nobody@tobi.ng'')
     = (Inr (Response 200 ''Gift successfully reassigned.''),
        ex_db_gift\<lparr>gifts := [ex_gift\<lparr>recipient_email := ''nobody@tobi.ng''\<rparr>]\<rparr>)
   \<and> ReassignGiftView_post
        (snd (ReassignGiftView_post ex_db_gift ex_customer 1 (Some ''nobody@tobi.ng'')))
        ex_customer 1 (Some ''other@tobi.ng'')
     = (Inr (Response 200 ''Gift successfully reassigned.''),
        ex_db_gift\<lparr>gifts := [ex_gift\<lparr>recipient_email := ''other@tobi.ng''\<rparr>]\<rparr>)"
  by (simp add: ReassignGiftView_post.simps ex_defs orm_defs)


end
